theory Spec2Isabelle
  imports Main "HOL-Library.Word"
begin

section \<open>JavaScript values used by the portal's authentication code\<close>

text \<open>
  Strings are lists of characters. A value read from a request body or from a nullable
  column is an option: \<open>None\<close> stands for \<open>undefined\<close> and \<open>null\<close>. JavaScript's
  truthiness of such a value (\<open>!x\<close>, \<open>x || y\<close>, \<open>x && y\<close>) is \<open>truthy\<close>: a missing value
  and the empty string are falsy.
\<close>

definition truthy :: "string option \<Rightarrow> bool" where
  "truthy v = (case v of None \<Rightarrow> False | Some s \<Rightarrow> s \<noteq> [])"

text \<open>\<open>a || b\<close> on two optional strings, and \<open>a || 'literal'\<close>.\<close>

definition orElse :: "string option \<Rightarrow> string option \<Rightarrow> string option" where
  "orElse a b = (if truthy a then a else b)"

definition orDefault :: "string option \<Rightarrow> string \<Rightarrow> string" where
  "orDefault a d = (case a of None \<Rightarrow> d | Some s \<Rightarrow> if s \<noteq> [] then s else d)"

text \<open>\<open>String.prototype.startsWith\<close>, \<open>Array.prototype.indexOf\<close> (\<open>-1\<close> when absent) and
  \<open>Array.prototype.includes\<close>.\<close>

definition startsWith :: "string \<Rightarrow> string \<Rightarrow> bool" where
  "startsWith s p = (take (length p) s = p)"

fun indexOf :: "string list \<Rightarrow> string \<Rightarrow> int" where
  "indexOf [] x = -1"
| "indexOf (y # ys) x =
     (if x = y then 0 else (let r = indexOf ys x in if r < 0 then -1 else r + 1))"

definition includesStr :: "string list \<Rightarrow> string \<Rightarrow> bool" where
  "includesStr xs x = (x \<in> set xs)"

section \<open>The data model: users, companies, join requests, sessions\<close>

text \<open>
  The fields of a user that the authentication code reads or writes. The source's
  \<open>user.id\<close> is \<open>uid\<close> here and a company's \<open>id\<close> is \<open>coId\<close> (\<open>id\<close> is HOL's identity
  function). Timestamps are milliseconds since the epoch, as \<open>Date.now()\<close> gives them.
\<close>

record user =
  uid :: string
  email :: string
  password :: string
  firstName :: "string option"
  lastName :: "string option"
  businessMobile :: "string option"
  emailVerificationToken :: "string option"
  verificationTokenExpiry :: "int option"
  isEmailVerified :: bool
  emailVerifiedAt :: "int option"
  role :: string
  permissionLevel :: "string option"
  companyId :: "nat option"
  isActive :: bool
  hearAboutUs :: "string option"
  hearAboutUsOther :: "string option"
  resetToken :: "string option"
  resetExpiry :: "int option"
  twoFactorSecret :: "string option"
  twoFactorEnabled :: bool

section \<open>The permission model (client/src/lib/permissions.ts)\<close>

text \<open>
  \<open>hasPermissionLevel(user, requiredLevel)\<close>: a missing user fails; the two admin roles
  pass; for the role \<open>team_member\<close> the positions of the two levels in
  \<open>['viewer', 'editor', 'manager', 'owner']\<close> are compared; every other role fails.
\<close>

definition levels :: "string list" where
  "levels = [''viewer'', ''editor'', ''manager'', ''owner'']"

definition hasPermissionLevel :: "user option \<Rightarrow> string \<Rightarrow> bool" where
  "hasPermissionLevel usr requiredLevel =
     (case usr of
        None \<Rightarrow> False
      | Some u \<Rightarrow>
          if role u = ''company_admin'' \<or> role u = ''system_admin'' then True
          else if role u = ''team_member'' then
            (let userLevel = orDefault (permissionLevel u) ''viewer'';
                 userIdx = indexOf levels userLevel;
                 reqIdx = indexOf levels requiredLevel
             in userIdx \<ge> reqIdx)
          else False)"

text \<open>
  \<open>canContractorEdit(user, applicationPermissions)\<close>: only roles that start with
  \<open>contractor_\<close>; individual contractors, account owners and managers always; a
  contractor team member with level \<open>manager\<close> always, any other contractor team member
  when the application's list includes \<open>edit\<close>. A call without the list passes \<open>[]\<close>.
\<close>

definition canContractorEdit :: "user option \<Rightarrow> string list \<Rightarrow> bool" where
  "canContractorEdit usr applicationPermissions =
     (case usr of
        None \<Rightarrow> False
      | Some u \<Rightarrow>
          if \<not> startsWith (role u) ''contractor_'' then False
          else if role u = ''contractor_individual'' \<or> role u = ''contractor_account_owner''
                  \<or> role u = ''contractor_manager'' then True
          else if role u = ''contractor_team_member'' \<and> permissionLevel u = Some ''manager''
            then True
          else if role u = ''contractor_team_member''
            then includesStr applicationPermissions ''edit''
          else False)"

text \<open>
  The spec's reading of the permission levels: an enumeration with the fixed order
  viewer < editor < manager < owner, each level stored under its name.
\<close>

datatype level = Viewer | Editor | Manager | Owner

fun ordinal :: "level \<Rightarrow> nat" where
  "ordinal Viewer = 0"
| "ordinal Editor = 1"
| "ordinal Manager = 2"
| "ordinal Owner = 3"

fun levelName :: "level \<Rightarrow> string" where
  "levelName Viewer = ''viewer''"
| "levelName Editor = ''editor''"
| "levelName Manager = ''manager''"
| "levelName Owner = ''owner''"

text \<open>The stored level of a user as the spec reads it: a missing level is viewer.\<close>

definition storedLevel :: "level option \<Rightarrow> string option" where
  "storedLevel l = map_option levelName l"

definition levelOrViewer :: "level option \<Rightarrow> level" where
  "levelOrViewer l = (case l of None \<Rightarrow> Viewer | Some x \<Rightarrow> x)"

section \<open>Password hashing and comparison (server/auth.ts)\<close>

text \<open>
  What a rejected promise or a thrown exception carries. \<open>UserEmailExists\<close> is the store's
  error whose message contains "User with this email already exists"; \<open>UniqueViolation\<close>
  any other constraint violation of the store; \<open>TypeError\<close> a property read on
  \<open>undefined\<close>; \<open>RangeError\<close> what \<open>timingSafeEqual\<close> throws on buffers of different
  length; \<open>LibraryError\<close> a failure inside bcrypt or scrypt.
\<close>

datatype error = UserEmailExists | UniqueViolation | TypeError | RangeError | LibraryError

type_synonym byte = "8 word"

text \<open>\<open>stored.split(".")\<close>: the pieces between the separators, at least one piece.\<close>

fun splitOn :: "char \<Rightarrow> string \<Rightarrow> string list" where
  "splitOn c [] = [[]]"
| "splitOn c (x # xs) =
     (if x = c then [] # splitOn c xs
      else (case splitOn c xs of [] \<Rightarrow> [[x]] | w # ws \<Rightarrow> (x # w) # ws))"

text \<open>Array destructuring \<open>const [hashed, salt] = ...\<close>: a missing position is undefined.\<close>

definition elemAt :: "'a list \<Rightarrow> nat \<Rightarrow> 'a option" where
  "elemAt xs i = (if i < length xs then Some (xs ! i) else None)"

definition charCode :: "char \<Rightarrow> nat" where
  "charCode c = of_char c"

text \<open>
  \<open>Buffer.from(hashed, "hex")\<close>: two hexadecimal digits give one byte; decoding stops at
  the first pair that is not hexadecimal, and a single trailing digit is dropped.
\<close>

definition hexVal :: "char \<Rightarrow> nat option" where
  "hexVal c =
     (let n = charCode c in
      if 48 \<le> n \<and> n \<le> 57 then Some (n - 48)
      else if 97 \<le> n \<and> n \<le> 102 then Some (n - 87)
      else if 65 \<le> n \<and> n \<le> 70 then Some (n - 55)
      else None)"

fun fromHex :: "string \<Rightarrow> byte list" where
  "fromHex (a # b # rest) =
     (case hexVal a of
        None \<Rightarrow> []
      | Some x \<Rightarrow> (case hexVal b of None \<Rightarrow> [] | Some y \<Rightarrow> of_nat (16 * x + y) # fromHex rest))"
| "fromHex _ = []"

text \<open>\<open>crypto.timingSafeEqual\<close> throws when the two buffers differ in length.\<close>

definition timingSafeEqual :: "byte list \<Rightarrow> byte list \<Rightarrow> error + bool" where
  "timingSafeEqual a b = (if length a \<noteq> length b then Inl RangeError else Inr (a = b))"

text \<open>
  The body of \<open>comparePasswords\<close>' try block. The two library functions are parameters:
  \<open>bcryptCompare supplied stored\<close> is \<open>bcrypt.compare\<close> and \<open>scryptAsync supplied salt 64\<close>
  is the promisified \<open>crypto.scrypt\<close>; each may fail.
\<close>

definition comparePasswordsTry ::
  "(string \<Rightarrow> string \<Rightarrow> error + bool) \<Rightarrow> (string \<Rightarrow> string \<Rightarrow> nat \<Rightarrow> error + byte list)
    \<Rightarrow> string \<Rightarrow> string \<Rightarrow> error + bool" where
  "comparePasswordsTry bcryptCompare scryptAsync supplied stored =
     (if startsWith stored ''$2b$'' then bcryptCompare supplied stored
      else
        (let parts = splitOn (CHR ''.'') stored;
             hashed = elemAt parts 0;
             salt = elemAt parts 1
         in case salt of
              None \<Rightarrow> Inr False
            | Some s \<Rightarrow>
                if s = [] then Inr False
                else (case hashed of
                        None \<Rightarrow> Inl TypeError
                      | Some h \<Rightarrow>
                          (let hashedBuf = fromHex h in
                           case scryptAsync supplied s 64 of
                             Inl e \<Rightarrow> Inl e
                           | Inr suppliedBuf \<Rightarrow> timingSafeEqual hashedBuf suppliedBuf))))"

text \<open>
  \<open>comparePasswords\<close>: the try block, and the catch block that logs and returns false.
  The result is how the promise settles: \<open>Inr\<close> a value, \<open>Inl\<close> a rejection.
\<close>

definition comparePasswords ::
  "(string \<Rightarrow> string \<Rightarrow> error + bool) \<Rightarrow> (string \<Rightarrow> string \<Rightarrow> nat \<Rightarrow> error + byte list)
    \<Rightarrow> string \<Rightarrow> string \<Rightarrow> error + bool" where
  "comparePasswords bcryptCompare scryptAsync supplied stored =
     (case comparePasswordsTry bcryptCompare scryptAsync supplied stored of
        Inl e \<Rightarrow> Inr False
      | Inr result \<Rightarrow> Inr result)"

text \<open>The two halves of a stored legacy value, as the destructuring names them.\<close>

definition legacyDigest :: "string \<Rightarrow> string option" where
  "legacyDigest stored = elemAt (splitOn (CHR ''.'') stored) 0"

definition legacySalt :: "string \<Rightarrow> string option" where
  "legacySalt stored = elemAt (splitOn (CHR ''.'') stored) 1"

text \<open>
  The password policy
  \<open>/^(?=.*[a-z])(?=.*[A-Z])(?=.*\d)(?=.*[!@#$%^&*(),.?":{}|<>]).{8,64}$/\<close>:
  8 to 64 characters, none of them a line terminator (which \<open>.\<close> does not match), with a
  lowercase letter, an uppercase letter, a digit and one of the listed symbols.
\<close>

definition isLower :: "char \<Rightarrow> bool" where
  "isLower c = (97 \<le> charCode c \<and> charCode c \<le> 122)"

definition isUpper :: "char \<Rightarrow> bool" where
  "isUpper c = (65 \<le> charCode c \<and> charCode c \<le> 90)"

definition isDigit :: "char \<Rightarrow> bool" where
  "isDigit c = (48 \<le> charCode c \<and> charCode c \<le> 57)"

definition isSymbol :: "char \<Rightarrow> bool" where
  "isSymbol c = (c \<in> set (''!@#$%^&*(),.?'' @ [CHR 0x22] @ '':{}|<>''))"

definition isLineTerminator :: "char \<Rightarrow> bool" where
  "isLineTerminator c = (charCode c = 10 \<or> charCode c = 13)"

definition passwordRegex :: "string \<Rightarrow> bool" where
  "passwordRegex p =
     (list_ex isLower p \<and> list_ex isUpper p \<and> list_ex isDigit p \<and> list_ex isSymbol p
      \<and> 8 \<le> length p \<and> length p \<le> 64 \<and> \<not> list_ex isLineTerminator p)"

section \<open>Companies, join requests, the store, sessions and replies\<close>

record company =
  coId :: nat
  name :: string
  shortName :: string
  businessNumber :: "string option"
  website :: "string option"
  streetAddress :: "string option"
  city :: "string option"
  province :: "string option"
  country :: "string option"
  postalCode :: "string option"
  phone :: "string option"
  isContractor :: bool
  serviceRegions :: "string list"
  supportedActivities :: "string list"
  capitalRetrofitTechnologies :: "string list"
  howHeardAbout :: "string option"
  howHeardAboutOther :: "string option"

record joinRequest =
  jrUserId :: string
  requestedCompanyId :: nat
  requestedPermissionLevel :: string
  jrMessage :: string
  jrStatus :: string

record store =
  users :: "user list"
  companies :: "company list"
  joinRequests :: "joinRequest list"

text \<open>
  The session payload: the logged-in user's id, the email verified in the registration
  popup, and the pending registration verification (email, code, expiry).
\<close>

record session =
  userId :: "string option"
  emailVerified :: "string option"
  registrationVerification :: "(string \<times> string \<times> int) option"

text \<open>
  A response: the status code, the message, and the other members of the JSON body that
  some handler sets. \<open>replyUser\<close> is the user whose public fields the body lists.
\<close>

record reply =
  status :: nat
  message :: string
  replyUser :: "user option"
  requiresEmailVerification :: "bool option"
  isPending :: "bool option"
  isJoinRequest :: "bool option"
  redirectTo :: "string option"
  replyEmail :: "string option"
  replyCompanyId :: "nat option"
  verified :: "bool option"
  replySecret :: "string option"

definition json :: "nat \<Rightarrow> string \<Rightarrow> reply" where
  "json s m =
     \<lparr> status = s, message = m, replyUser = None, requiresEmailVerification = None,
       isPending = None, isJoinRequest = None, redirectTo = None, replyEmail = None,
       replyCompanyId = None, verified = None, replySecret = None \<rparr>"

text \<open>
  What a request takes from outside the program: the id \<open>nanoid()\<close> returns, the token
  \<open>nanoid(32)\<close> returns, the clock, the six-digit code drawn with \<open>Math.random\<close>,
  bcrypt's hash, and whether the mail service delivered the verification mail and the
  reset mail.
\<close>

record env =
  nanoid :: string
  nanoid32 :: string
  now :: int
  randomCode :: string
  bcryptHash :: "string \<Rightarrow> string"
  emailSent :: bool
  resetEmailSent :: bool

subsection \<open>The credential store\<close>

text \<open>
  Modelled from the spec: server/storage.ts is not among the sources. The spec's
  credential store persists user records with a unique id and a unique email, and company
  records with an id, a name and a short name; a lookup returns the record or nothing.
\<close>

definition getUserByEmail :: "store \<Rightarrow> string \<Rightarrow> user option" where
  "getUserByEmail st e = find (\<lambda>u. email u = e) (users st)"

definition getUserById :: "store \<Rightarrow> string \<Rightarrow> user option" where
  "getUserById st i = find (\<lambda>u. uid u = i) (users st)"

definition getUser :: "store \<Rightarrow> string \<Rightarrow> user option" where
  "getUser st i = getUserById st i"

definition getCompanyByName :: "store \<Rightarrow> string \<Rightarrow> company option" where
  "getCompanyByName st n = find (\<lambda>c. name c = n) (companies st)"

definition getCompanyByShortName :: "store \<Rightarrow> string \<Rightarrow> company option" where
  "getCompanyByShortName st n = find (\<lambda>c. shortName c = n) (companies st)"

text \<open>
  Modelled from the spec: \<open>storage.updateUser(id, fields)\<close> overwrites the given fields of
  the user with that id and returns the updated record (nothing when there is no such
  user). The fields to overwrite are a function on the record.
\<close>

definition updateUser :: "store \<Rightarrow> string \<Rightarrow> (user \<Rightarrow> user) \<Rightarrow> store \<times> user option" where
  "updateUser st i f =
     (st\<lparr>users := map (\<lambda>u. if uid u = i then f u else u) (users st)\<rparr>,
      map_option f (getUserById st i))"

text \<open>
  Modelled from the spec: \<open>storage.upsertUser(userData)\<close> inserts the record, or overwrites
  the record that has the same id; the store's unique-email constraint rejects it with
  "User with this email already exists" when another user holds the email. The handler's
  \<open>userData\<close> sets the fields that \<open>upsertFields\<close> copies; the other columns keep their
  value, or take the store's default on insert.
\<close>

definition upsertFields :: "user \<Rightarrow> user \<Rightarrow> user" where
  "upsertFields d old =
     old\<lparr> email := email d, password := password d, firstName := firstName d,
          lastName := lastName d, businessMobile := businessMobile d,
          emailVerificationToken := emailVerificationToken d,
          verificationTokenExpiry := verificationTokenExpiry d,
          isEmailVerified := isEmailVerified d, role := role d,
          permissionLevel := permissionLevel d \<rparr>"

definition upsertUser :: "store \<Rightarrow> user \<Rightarrow> error + (store \<times> user)" where
  "upsertUser st d =
     (if list_ex (\<lambda>u. email u = email d \<and> uid u \<noteq> uid d) (users st) then Inl UserEmailExists
      else case getUserById st (uid d) of
             None \<Rightarrow> Inr (st\<lparr>users := users st @ [d]\<rparr>, d)
           | Some old \<Rightarrow>
               Inr (st\<lparr>users := map (\<lambda>u. if uid u = uid d then upsertFields d u else u) (users st)\<rparr>,
                    upsertFields d old))"

text \<open>
  Modelled from the spec: \<open>storage.createUser(user)\<close> inserts a new record; the store's
  unique id and unique email reject a record that repeats either.
\<close>

definition createUser :: "store \<Rightarrow> user \<Rightarrow> error + (store \<times> user)" where
  "createUser st d =
     (if list_ex (\<lambda>u. email u = email d \<or> uid u = uid d) (users st) then Inl UniqueViolation
      else Inr (st\<lparr>users := users st @ [d]\<rparr>, d))"

text \<open>
  Modelled from the spec: \<open>storage.createCompany(fields)\<close> inserts the company under a new
  id (one above the largest id in use) and returns it;
  \<open>storage.createContractorJoinRequest(fields)\<close> inserts the request and returns it.
\<close>

definition newCompanyId :: "store \<Rightarrow> nat" where
  "newCompanyId st = Suc (fold max (map coId (companies st)) 0)"

definition createCompany :: "store \<Rightarrow> company \<Rightarrow> store \<times> company" where
  "createCompany st c =
     (let c' = c\<lparr>coId := newCompanyId st\<rparr>
      in (st\<lparr>companies := companies st @ [c']\<rparr>, c'))"

definition createContractorJoinRequest :: "store \<Rightarrow> joinRequest \<Rightarrow> store \<times> joinRequest" where
  "createContractorJoinRequest st r = (st\<lparr>joinRequests := joinRequests st @ [r]\<rparr>, r)"

section \<open>The authentication middleware and the small endpoints (server/auth.ts)\<close>

text \<open>
  \<open>requireAuth\<close>: \<open>Inl\<close> the response it sends itself, \<open>Inr\<close> the user it attaches to the
  request before calling \<open>next()\<close>. It reads the store with \<open>storage.getUserById\<close> each
  time it runs.
\<close>

definition requireAuth :: "store \<Rightarrow> session \<Rightarrow> reply + user" where
  "requireAuth st sess =
     (if \<not> truthy (userId sess) then Inl (json 401 ''Authentication required'')
      else case userId sess of
             None \<Rightarrow> Inl (json 401 ''Authentication required'')
           | Some i \<Rightarrow>
               (case getUserById st i of
                  None \<Rightarrow> Inl (json 401 ''User not found'')
                | Some u \<Rightarrow>
                    if isActive u = False
                    then Inl (json 403
                      ''Your account has been deactivated. Please contact support.'')
                    else Inr u))"

text \<open>\<open>POST /api/auth/request-reset\<close>; \<open>res.json\<close> without a status answers 200.\<close>

definition requestReset :: "env \<Rightarrow> store \<Rightarrow> string option \<Rightarrow> store \<times> reply" where
  "requestReset ev st emailOpt =
     (case emailOpt of
        None \<Rightarrow> (st, json 400 ''Email is required'')
      | Some e \<Rightarrow>
          if e = [] then (st, json 400 ''Email is required'')
          else (case getUserByEmail st e of
                  None \<Rightarrow>
                    (st, json 200 ''If an account exists, reset instructions have been sent'')
                | Some u \<Rightarrow>
                    (let resetToken' = nanoid32 ev;
                         resetExpiry' = now ev + 60 * 60 * 1000;
                         st' = fst (updateUser st (uid u)
                                 (\<lambda>x. x\<lparr>resetToken := Some resetToken',
                                         resetExpiry := Some resetExpiry'\<rparr>))
                     in (st', json 200
                           ''If an account exists, reset instructions have been sent''))))"

text \<open>\<open>POST /api/auth/reset-password\<close>: the body's \<open>email\<close> and \<open>newPassword\<close>.\<close>

definition resetPassword :: "env \<Rightarrow> store \<Rightarrow> string \<Rightarrow> string \<Rightarrow> store \<times> reply" where
  "resetPassword ev st e newPassword =
     (if \<not> passwordRegex newPassword
      then (st, json 400
              ''Password must be 8-64 characters with lowercase, uppercase, digit, and symbol'')
      else case getUserByEmail st e of
             None \<Rightarrow> (st, json 404 ''User not found'')
           | Some u \<Rightarrow>
               (let hashedPassword = bcryptHash ev newPassword;
                    st' = fst (updateUser st (uid u) (\<lambda>x. x\<lparr>password := hashedPassword\<rparr>))
                in (st', json 200 ''Password updated successfully'')))"

text \<open>
  \<open>POST /api/auth/verify-code\<close>. The checks come in the source's order: missing input,
  unknown user, already verified, wrong code, expired code. Reading a field of the
  record \<open>updateUser\<close> returned throws when there is none, and the catch block answers 500.
\<close>

definition verifyCode ::
  "env \<Rightarrow> store \<Rightarrow> session \<Rightarrow> string option \<Rightarrow> string option \<Rightarrow> store \<times> session \<times> reply" where
  "verifyCode ev st sess emailOpt codeOpt =
     (if \<not> truthy emailOpt \<or> \<not> truthy codeOpt
      then (st, sess, json 400 ''Email and verification code are required'')
      else case getUserByEmail st (orDefault emailOpt []) of
             None \<Rightarrow> (st, sess, json 400 ''User not found'')
           | Some u \<Rightarrow>
               if isEmailVerified u then (st, sess, json 400 ''Email is already verified'')
               else if emailVerificationToken u \<noteq> codeOpt
                 then (st, sess, json 400 ''Invalid verification code'')
               else if (case verificationTokenExpiry u of
                          None \<Rightarrow> False
                        | Some expiry \<Rightarrow> now ev > expiry)
                 then (st, sess,
                       json 400 ''Verification code has expired. Please request a new one.'')
               else
                 (case updateUser st (uid u)
                         (\<lambda>x. x\<lparr>isEmailVerified := True, emailVerifiedAt := Some (now ev),
                                 emailVerificationToken := None,
                                 verificationTokenExpiry := None\<rparr>) of
                    (st', None) \<Rightarrow> (st', sess, json 500 ''Failed to verify email'')
                  | (st', Some updatedUser) \<Rightarrow>
                      (let sess' = sess\<lparr>userId := Some (uid u)\<rparr>;
                           verifiedUser = getUser st' (uid u)
                       in (st', sess',
                           (json 200
                              ''Email verified successfully! Welcome to SEMI Program Portal.'')
                             \<lparr>replyUser := verifiedUser, verified := Some True,
                              redirectTo := Some
                                (if map_option role verifiedUser = Some ''contractor_individual''
                                    \<or> map_option role verifiedUser
                                        = Some ''contractor_account_owner''
                                 then ''/contractor-dashboard'' else ''/'')\<rparr>))))"

text \<open>
  \<open>POST /api/auth/2fa/setup\<close> and \<open>POST /api/auth/2fa/verify\<close>, both behind \<open>requireAuth\<close>.
  server/twoFactorAuth.ts is not among the sources: \<open>generateTwoFactorSecret\<close> (the secret
  it issues for an email) and \<open>verifyTwoFactorToken\<close> (whether a token is currently valid
  for a secret) are parameters. Of the setup's body only the secret is kept; the QR code
  image is left out.
\<close>

definition twoFactorSetup :: "(string \<Rightarrow> string) \<Rightarrow> store \<Rightarrow> session \<Rightarrow> store \<times> reply" where
  "twoFactorSetup generateTwoFactorSecret st sess =
     (case requireAuth st sess of
        Inl r \<Rightarrow> (st, r)
      | Inr u \<Rightarrow>
          if twoFactorEnabled u
          then (st, json 400 ''Two-factor authentication is already enabled'')
          else (st, (json 200 [])\<lparr>replySecret := Some (generateTwoFactorSecret (email u))\<rparr>))"

definition twoFactorVerify ::
  "(string \<Rightarrow> string \<Rightarrow> bool) \<Rightarrow> store \<Rightarrow> session \<Rightarrow> string option \<Rightarrow> string option
    \<Rightarrow> store \<times> reply" where
  "twoFactorVerify verifyTwoFactorToken st sess secretOpt tokenOpt =
     (case requireAuth st sess of
        Inl r \<Rightarrow> (st, r)
      | Inr u \<Rightarrow>
          if \<not> truthy secretOpt \<or> \<not> truthy tokenOpt
          then (st, json 400 ''Secret and token are required'')
          else
            (let isValidToken =
                   verifyTwoFactorToken (orDefault tokenOpt []) (orDefault secretOpt [])
             in if \<not> isValidToken then (st, json 400 ''Invalid verification code'')
                else
                  (let st' = fst (updateUser st (uid u)
                                   (\<lambda>x. x\<lparr>twoFactorSecret := secretOpt,
                                           twoFactorEnabled := True\<rparr>))
                   in (st', json 200 ''Two-factor authentication enabled successfully''))))"

section \<open>Registration (POST /api/auth/register)\<close>

text \<open>
  The members of the request body that the handler reads (\<open>req.body.email\<close> is
  \<open>req_email\<close>). The agreement flags are booleans, a missing one being false; the
  selected company id is a number, \<open>0\<close> and a missing one being falsy.
\<close>

record registerBody =
  req_email :: string
  req_password :: string
  req_firstName :: "string option"
  req_lastName :: "string option"
  req_businessMobile :: "string option"
  req_userType :: "string option"
  req_role :: "string option"
  req_companyName :: "string option"
  req_companyShortName :: "string option"
  req_businessNumber :: "string option"
  req_companyWebsite :: "string option"
  req_streetAddress :: "string option"
  req_city :: "string option"
  req_province :: "string option"
  req_country :: "string option"
  req_postalCode :: "string option"
  req_howHeardAbout :: "string option"
  req_howHeardAboutOther :: "string option"
  req_agreeToPortalServices :: bool
  req_agreeToBusinessInfo :: bool
  req_agreeToContact :: bool
  req_phone :: "string option"
  req_website :: "string option"
  req_serviceRegions :: "string list option"
  req_supportedActivities :: "string list option"
  req_capitalRetrofitTechnologies :: "string list option"
  req_hasCodeOfConductAgreement :: bool
  req_hasPrivacyPolicyAgreement :: bool
  req_hasTermsOfServiceAgreement :: bool
  req_hasDataSharingAgreement :: bool
  req_acceptTerms :: bool
  req_acceptBusinessInfo :: bool
  req_acceptContact :: bool
  req_codeOfConductAgreed :: bool
  req_contractorCompanyExists :: "string option"
  req_selectedCompanyId :: "nat option"

definition truthyId :: "nat option \<Rightarrow> bool" where
  "truthyId v = (case v of None \<Rightarrow> False | Some n \<Rightarrow> n \<noteq> 0)"

text \<open>\<open>x || null\<close> on an optional string, \<open>xs || []\<close> on an optional array, and an
  optional string inside a template literal.\<close>

definition orNull :: "string option \<Rightarrow> string option" where
  "orNull v = (if truthy v then v else None)"

definition orEmpty :: "string list option \<Rightarrow> string list" where
  "orEmpty v = (case v of None \<Rightarrow> [] | Some xs \<Rightarrow> xs)"

definition inTemplate :: "string option \<Rightarrow> string" where
  "inTemplate v = (case v of None \<Rightarrow> ''undefined'' | Some s \<Rightarrow> s)"

subsection \<open>Which registration this is\<close>

definition isCompanyOwner :: "registerBody \<Rightarrow> bool" where
  "isCompanyOwner b =
     (truthy (req_companyName b) \<and> truthy (req_companyShortName b)
      \<and> truthy (req_businessNumber b))"

definition isTeamMember :: "registerBody \<Rightarrow> bool" where
  "isTeamMember b = (req_userType b = Some ''team_member'')"

definition userRole :: "registerBody \<Rightarrow> string option" where
  "userRole b = orElse (req_role b) (req_userType b)"

definition assignedRole :: "registerBody \<Rightarrow> string" where
  "assignedRole b =
     (if isCompanyOwner b then ''company_admin''
      else if isTeamMember b then ''team_member''
      else if req_userType b = Some ''contractor_account_owner'' then ''contractor_account_owner''
      else if req_userType b = Some ''contractor_individual'' then ''contractor_individual''
      else if userRole b = Some ''contractor_individual'' \<or> req_userType b = Some ''contractor''
        then ''contractor_individual''
      else if userRole b = Some ''contractor_account_owner'' then ''contractor_account_owner''
      else ''team_member'')"

text \<open>
  \<open>userData\<close>: the record handed to \<open>storage.upsertUser\<close>. The columns it does not set
  take the store's defaults (spec: the active flag defaults to true; no company, no reset
  token, two-factor off).
\<close>

definition userData :: "env \<Rightarrow> registerBody \<Rightarrow> user" where
  "userData ev b =
     \<lparr> uid = nanoid ev, email = req_email b, password = bcryptHash ev (req_password b),
       firstName = req_firstName b, lastName = req_lastName b,
       businessMobile = orNull (req_businessMobile b),
       emailVerificationToken = Some (randomCode ev),
       verificationTokenExpiry = Some (now ev + 10 * 60 * 1000),
       isEmailVerified = False, emailVerifiedAt = None,
       role = assignedRole b,
       permissionLevel = Some (if assignedRole b = ''company_admin'' then ''owner'' else ''editor''),
       companyId = None, isActive = True, hearAboutUs = None, hearAboutUsOther = None,
       resetToken = None, resetExpiry = None, twoFactorSecret = None,
       twoFactorEnabled = False \<rparr>"

definition failed500 :: reply where
  "failed500 = json 500 ''Failed to create account''"

subsection \<open>The team-member branch\<close>

text \<open>
  The pending-approval mail is sent inside its own try/catch, so whether it is delivered
  does not change the answer; it is left out.
\<close>

definition registerTeamMember ::
  "env \<Rightarrow> store \<Rightarrow> session \<Rightarrow> registerBody \<Rightarrow> user option \<Rightarrow> store \<times> session \<times> reply" where
  "registerTeamMember ev st sess b usr =
     (if \<not> truthy (req_companyName b)
      then (st, sess, json 400 ''Company name is required for team member registration'')
      else case getCompanyByName st (orDefault (req_companyName b) []) of
             None \<Rightarrow>
               (st, sess, json 400
                  ''Company not found. Please verify the exact company name or contact your company administrator.'')
           | Some existingCompany \<Rightarrow>
               (case usr of
                  None \<Rightarrow> (st, sess, failed500)
                | Some u \<Rightarrow>
                    (case updateUser st (uid u)
                            (\<lambda>x. x\<lparr>companyId := Some (coId existingCompany),
                                    role := ''team_member'', isEmailVerified := True,
                                    emailVerifiedAt := Some (now ev)\<rparr>) of
                       (st', None) \<Rightarrow> (st', sess, failed500)
                     | (st', Some u') \<Rightarrow>
                         (st', sess,
                          (json 201
                             ''Registration submitted successfully! Your request is pending approval from your company administrator. You will receive an email confirmation once approved.'')
                            \<lparr>replyUser := Some u', requiresEmailVerification := Some False,
                             isPending := Some True\<rparr>))))"

subsection \<open>The contractor branch and its short-name loop\<close>

text \<open>The decimal digits of a number, as a template literal writes it.\<close>

definition digitChar :: "nat \<Rightarrow> char" where
  "digitChar d = ''0123456789'' ! (d mod 10)"

function showNat :: "nat \<Rightarrow> string" where
  "showNat n = (if n < 10 then [digitChar n] else showNat (n div 10) @ [digitChar (n mod 10)])"
  by pat_completeness auto
termination
  by (relation "measure (\<lambda>n. n)") auto

text \<open>
  \<open>String.prototype.toUpperCase\<close> on code units below 256: the ASCII and Latin-1 lowercase
  letters move to their capitals, the sharp s (223) becomes \<open>SS\<close>; the micro sign (181)
  and y with diaeresis (255), whose capitals lie above 255, stay as they are (neither
  they nor their capitals are in \<open>A-Z0-9\<close>).
\<close>

definition upperChar :: "char \<Rightarrow> string" where
  "upperChar c =
     (let n = charCode c in
      if 97 \<le> n \<and> n \<le> 122 then [char_of (n - 32)]
      else if n = 223 then ''SS''
      else if 224 \<le> n \<and> n \<le> 254 \<and> n \<noteq> 247 then [char_of (n - 32)]
      else [c])"

definition toUpperCase :: "string \<Rightarrow> string" where
  "toUpperCase s = concat (map upperChar s)"

definition isUpperAlnum :: "char \<Rightarrow> bool" where
  "isUpperAlnum c = (isUpper c \<or> isDigit c)"

text \<open>\<open>companyName.substring(0, 6).toUpperCase().replace(/[^A-Z0-9]/g, '')\<close>\<close>

definition baseShortName :: "string \<Rightarrow> string" where
  "baseShortName companyName = filter isUpperAlnum (toUpperCase (take 6 companyName))"

text \<open>
  The loop \<open>while (counter <= 100)\<close>: it leaves with the name it found free, or with
  \<open>counter = 101\<close>. The result is the final \<open>contractorShortName\<close> and \<open>counter\<close>.
\<close>

function shortNameLoop :: "store \<Rightarrow> string \<Rightarrow> string \<Rightarrow> nat \<Rightarrow> string \<times> nat" where
  "shortNameLoop st base contractorShortName counter =
     (if counter \<le> 100 then
        (case getCompanyByShortName st contractorShortName of
           None \<Rightarrow> (contractorShortName, counter)
         | Some existingCompany \<Rightarrow>
             shortNameLoop st base
               (if Suc counter \<le> 9 then take 5 base @ showNat (Suc counter)
                else take 4 base @ showNat (Suc counter))
               (Suc counter))
      else (contractorShortName, counter))"
  by pat_completeness auto
termination
  by (relation "measure (\<lambda>(st, base, nm, counter). 101 - counter)") auto

text \<open>
  The contractor branch. The confirmation mail is sent without being awaited and its
  failure is only logged; it is left out.
\<close>

definition registerContractor ::
  "env \<Rightarrow> store \<Rightarrow> session \<Rightarrow> registerBody \<Rightarrow> user option \<Rightarrow> store \<times> session \<times> reply" where
  "registerContractor ev st sess b usr =
     (if userRole b = Some ''contractor_individual''
         \<and> req_contractorCompanyExists b = Some ''yes'' \<and> truthyId (req_selectedCompanyId b)
      then
        (case createUser st
                \<lparr> uid = nanoid ev, email = req_email b,
                  password = bcryptHash ev (req_password b),
                  firstName = req_firstName b, lastName = req_lastName b,
                  businessMobile = req_businessMobile b,
                  emailVerificationToken = Some (randomCode ev),
                  verificationTokenExpiry = Some (now ev + 10 * 60 * 1000),
                  isEmailVerified = False, emailVerifiedAt = None,
                  role = orDefault (userRole b) [], permissionLevel = Some ''editor'',
                  companyId = None, isActive = False,
                  hearAboutUs = req_howHeardAbout b,
                  hearAboutUsOther = req_howHeardAboutOther b,
                  resetToken = None, resetExpiry = None, twoFactorSecret = None,
                  twoFactorEnabled = False \<rparr> of
           Inl e \<Rightarrow> (st, sess, failed500)
         | Inr (st1, contractorUser) \<Rightarrow>
             (case createContractorJoinRequest st1
                     \<lparr> jrUserId = nanoid ev,
                       requestedCompanyId = (case req_selectedCompanyId b of
                                               None \<Rightarrow> 0 | Some n \<Rightarrow> n),
                       requestedPermissionLevel = ''editor'',
                       jrMessage = inTemplate (req_firstName b) @ '' ''
                         @ inTemplate (req_lastName b)
                         @ '' is requesting to join your contractor team.'',
                       jrStatus = ''pending'' \<rparr> of
                (st2, joinReq) \<Rightarrow>
                  (st2, sess,
                   (json 201
                      ''Join request submitted successfully! Your request is pending approval from the contractor company administrator. You will receive an email confirmation once approved.'')
                     \<lparr>replyUser := Some contractorUser,
                      requiresEmailVerification := Some False, isPending := Some True,
                      isJoinRequest := Some True\<rparr>)))
      else if \<not> truthy (req_companyName b) \<or> \<not> truthy (req_streetAddress b)
              \<or> \<not> truthy (req_city b) \<or> \<not> truthy (req_province b)
              \<or> \<not> truthy (req_country b)
        then (st, sess, json 400
                ''All business information fields are required for contractor registration'')
      else
        (let codeOfConductAccepted = (req_hasCodeOfConductAgreement b \<or> req_codeOfConductAgreed b);
             termsAccepted = (req_hasTermsOfServiceAgreement b \<or> req_acceptTerms b
                              \<or> req_agreeToPortalServices b);
             businessInfoAccepted = (req_hasPrivacyPolicyAgreement b \<or> req_acceptBusinessInfo b
                                     \<or> req_agreeToBusinessInfo b);
             contactAccepted = (req_hasDataSharingAgreement b \<or> req_acceptContact b
                                \<or> req_agreeToContact b)
         in if \<not> codeOfConductAccepted \<or> \<not> termsAccepted \<or> \<not> businessInfoAccepted
               \<or> \<not> contactAccepted
            then (st, sess, json 400
                    ''You must agree to all terms and conditions to register as a contractor'')
            else
              (let companyName = orDefault (req_companyName b) [];
                   base = baseShortName companyName
               in case shortNameLoop st base base 1 of
                    (contractorShortName, counter) \<Rightarrow>
                      if counter > 100
                      then (st, sess, json 400
                              ''Unable to generate unique company identifier. Please contact support.'')
                      else
                        (case createCompany st
                                \<lparr> coId = 0, name = companyName,
                                  shortName = contractorShortName,
                                  businessNumber = orNull (req_businessNumber b),
                                  website = orNull (orElse (req_website b) (req_companyWebsite b)),
                                  streetAddress = req_streetAddress b, city = req_city b,
                                  province = req_province b, country = req_country b,
                                  postalCode = req_postalCode b,
                                  phone = orNull (req_phone b), isContractor = True,
                                  serviceRegions = orEmpty (req_serviceRegions b),
                                  supportedActivities = orEmpty (req_supportedActivities b),
                                  capitalRetrofitTechnologies =
                                    orEmpty (req_capitalRetrofitTechnologies b),
                                  howHeardAbout = None, howHeardAboutOther = None \<rparr> of
                           (st1, contractorCompany) \<Rightarrow>
                             (case usr of
                                None \<Rightarrow> (st1, sess, failed500)
                              | Some u \<Rightarrow>
                                  (case updateUser st1 (uid u)
                                          (\<lambda>x. x\<lparr>companyId := Some (coId contractorCompany),
                                                  role := ''contractor_account_owner''\<rparr>) of
                                     (st2, None) \<Rightarrow> (st2, sess, failed500)
                                   | (st2, Some u') \<Rightarrow>
                                       (st2, sess\<lparr>userId := Some (uid u')\<rparr>,
                                        (json 201
                                           ''Registration successful! Welcome to your contractor dashboard.'')
                                          \<lparr>replyUser := Some u',
                                           requiresEmailVerification := Some False,
                                           redirectTo := Some ''/contractor-dashboard''\<rparr>)))))))"

subsection \<open>The company-owner branch and the default path\<close>

text \<open>
  The do-while loop of the company-owner branch, entered with \<open>counter = 2\<close> when the
  supplied short name is taken: it leaves with a free name, or with \<open>counter = 100\<close>.
\<close>

function ownerShortNameLoop :: "store \<Rightarrow> string \<Rightarrow> nat \<Rightarrow> string \<times> nat" where
  "ownerShortNameLoop st companyShortName counter =
     (case getCompanyByShortName st (take 5 companyShortName @ showNat counter) of
        None \<Rightarrow> (take 5 companyShortName @ showNat counter, counter)
      | Some checkCompany \<Rightarrow>
          if Suc counter < 100 then ownerShortNameLoop st companyShortName (Suc counter)
          else (take 5 companyShortName @ showNat counter, Suc counter))"
  by pat_completeness auto
termination
  by (relation "measure (\<lambda>(st, nm, counter). 100 - counter)") auto

text \<open>
  The block \<open>if (isCompanyOwner) { ... }\<close>: \<open>Inl\<close> when it answers itself, \<open>Inr\<close> the store
  and the user it leaves to the rest of the handler.
\<close>

definition registerCompanyOwner ::
  "env \<Rightarrow> store \<Rightarrow> session \<Rightarrow> registerBody \<Rightarrow> user option
    \<Rightarrow> (store \<times> session \<times> reply) + (store \<times> user option)" where
  "registerCompanyOwner ev st sess b usr =
     (case usr of
        None \<Rightarrow> Inl (st, sess, failed500)
      | Some u \<Rightarrow>
          if \<not> isEmailVerified u
          then Inl (st, sess, json 400
                      ''Email verification is required for company owner registration'')
          else if \<not> truthy (req_companyName b) \<or> \<not> truthy (req_companyShortName b)
                  \<or> \<not> truthy (req_businessNumber b) \<or> \<not> truthy (req_streetAddress b)
                  \<or> \<not> truthy (req_city b) \<or> \<not> truthy (req_province b)
                  \<or> \<not> truthy (req_country b) \<or> \<not> truthy (req_postalCode b)
                  \<or> \<not> truthy (req_howHeardAbout b)
            then Inl (st, sess, json 400
                        ''All business information fields are required for company owners'')
          else if \<not> req_agreeToPortalServices b \<or> \<not> req_agreeToBusinessInfo b
                  \<or> \<not> req_agreeToContact b
            then Inl (st, sess, json 400
                        ''You must agree to all terms and conditions to register as a company owner'')
          else
            (let companyShortName = orDefault (req_companyShortName b) [];
                 existingCompany = getCompanyByShortName st companyShortName
             in case (case existingCompany of
                        None \<Rightarrow> (companyShortName, 2)
                      | Some c \<Rightarrow> ownerShortNameLoop st companyShortName 2) of
                  (finalShortName, counter) \<Rightarrow>
                    if existingCompany \<noteq> None \<and> counter \<ge> 100
                    then Inl (st, sess, json 400
                                ''Unable to generate unique company identifier. Please contact support.'')
                    else
                      (case createCompany st
                              \<lparr> coId = 0, name = orDefault (req_companyName b) [],
                                shortName = finalShortName,
                                businessNumber = req_businessNumber b,
                                website = orNull (req_companyWebsite b),
                                streetAddress = req_streetAddress b, city = req_city b,
                                province = req_province b, country = req_country b,
                                postalCode = req_postalCode b, phone = None,
                                isContractor = False, serviceRegions = [],
                                supportedActivities = [], capitalRetrofitTechnologies = [],
                                howHeardAbout = req_howHeardAbout b,
                                howHeardAboutOther =
                                  (if req_howHeardAbout b = Some ''other''
                                   then req_howHeardAboutOther b else None) \<rparr> of
                         (st1, company') \<Rightarrow>
                           Inr (updateUser st1 (uid u)
                                  (\<lambda>x. x\<lparr>companyId := Some (coId company'),
                                          role := ''company_admin'', isEmailVerified := True,
                                          emailVerifiedAt := Some (now ev)\<rparr>)))))"

text \<open>
  The end of the handler: a verified company owner is logged in; anyone else is sent the
  verification mail.
\<close>

definition registerFinish ::
  "env \<Rightarrow> store \<Rightarrow> session \<Rightarrow> registerBody \<Rightarrow> user option \<Rightarrow> store \<times> session \<times> reply" where
  "registerFinish ev st sess b usr =
     (if isCompanyOwner b \<and> usr = None then (st, sess, failed500)
      else if isCompanyOwner b \<and> map_option isEmailVerified usr = Some True
        then (st, sess\<lparr>userId := map_option uid usr\<rparr>,
              (json 201 ''Registration successful! Welcome to your dashboard.'')
                \<lparr>replyUser := usr, requiresEmailVerification := Some False\<rparr>)
      else if \<not> emailSent ev
        then (st, sess, json 500 ''Failed to send verification email. Please try again.'')
      else case usr of
             None \<Rightarrow> (st, sess, failed500)
           | Some u \<Rightarrow>
               (st, sess,
                (json 201
                   ''Registration successful! Please check your email for the verification code.'')
                  \<lparr>requiresEmailVerification := Some True, replyEmail := Some (req_email b),
                   replyCompanyId := companyId u\<rparr>))"

subsection \<open>The handler\<close>

text \<open>
  The branches after the user record has been written: team member first, then
  contractor, then company owner, then the default path.
\<close>

definition registerBranches ::
  "env \<Rightarrow> store \<Rightarrow> session \<Rightarrow> registerBody \<Rightarrow> user option \<Rightarrow> store \<times> session \<times> reply" where
  "registerBranches ev st sess b usr =
     (if isTeamMember b then registerTeamMember ev st sess b usr
      else if userRole b = Some ''contractor_individual''
              \<or> userRole b = Some ''contractor_account_owner''
        then registerContractor ev st sess b usr
      else if isCompanyOwner b
        then (case registerCompanyOwner ev st sess b usr of
                Inl answered \<Rightarrow> answered
              | Inr (st', usr') \<Rightarrow> registerFinish ev st' sess b usr')
      else registerFinish ev st sess b usr)"

text \<open>
  \<open>app.post("/api/auth/register", ...)\<close>: the password policy, the duplicate-email check,
  the insertion of the user record, the update when the session already holds the
  verified email, and then the branches.
\<close>

definition register ::
  "env \<Rightarrow> store \<Rightarrow> session \<Rightarrow> registerBody \<Rightarrow> store \<times> session \<times> reply" where
  "register ev st sess b =
     (if \<not> passwordRegex (req_password b)
      then (st, sess, json 400
              ''Password must be 8-64 characters with lowercase, uppercase, digit, and symbol'')
      else case getUserByEmail st (req_email b) of
             Some existingUser \<Rightarrow> (st, sess, json 400 ''User with this email already exists'')
           | None \<Rightarrow>
               (case upsertUser st (userData ev b) of
                  Inl e \<Rightarrow>
                    if e = UserEmailExists
                    then (st, sess, json 400 ''User with this email already exists'')
                    else (st, sess, failed500)
                | Inr (st1, u) \<Rightarrow>
                    if emailVerified sess = Some (req_email b)
                    then (case updateUser st1 (uid u)
                                 (\<lambda>x. x\<lparr>isEmailVerified := True,
                                         emailVerifiedAt := Some (now ev)\<rparr>) of
                            (st2, usr) \<Rightarrow> registerBranches ev st2 sess b usr)
                    else registerBranches ev st1 sess b (Some u)))"

section \<open>The spec's wording of the contractor short name\<close>

text \<open>
  The spec's base: the first 6 alphanumeric uppercase characters of the company name.
\<close>

definition firstSixUpperAlnum :: "string \<Rightarrow> string" where
  "firstSixUpperAlnum companyName = take 6 (filter isUpperAlnum (toUpperCase companyName))"

text \<open>
  The candidates the loop tries, by attempt number: the base itself first; from the
  second attempt on the number of the attempt written after the first 5 characters of
  the base (attempts 2 to 9) or after its first 4 characters (from attempt 10 on).
\<close>

definition candidate :: "string \<Rightarrow> nat \<Rightarrow> string" where
  "candidate base k =
     (if k \<le> 1 then base
      else if k \<le> 9 then take 5 base @ showNat k
      else take 4 base @ showNat k)"

text \<open>The first of the attempts 1 to 100 whose candidate no company holds.\<close>

definition firstFree :: "store \<Rightarrow> string \<Rightarrow> nat option" where
  "firstFree st base =
     find (\<lambda>k. getCompanyByShortName st (candidate base k) = None) [1..<101]"

section \<open>The spec's wording of the legacy password format\<close>

text \<open>
  The spec's legacy format: a hex-encoded digest and a salt joined by a delimiter. A
  stored value is of that format when the delimiter splits it into exactly two pieces, a
  non-empty digest made of pairs of hexadecimal digits and a non-empty salt.
\<close>

definition isHexDigit :: "char \<Rightarrow> bool" where
  "isHexDigit c = (hexVal c \<noteq> None)"

definition legacyWellFormed :: "string \<Rightarrow> bool" where
  "legacyWellFormed stored =
     (case splitOn (CHR ''.'') stored of
        [digest, salt] \<Rightarrow>
          digest \<noteq> [] \<and> even (length digest) \<and> list_all isHexDigit digest \<and> salt \<noteq> []
      | _ \<Rightarrow> False)"

section \<open>Sample data for concrete runs\<close>

text \<open>A user record with the store's defaults, for concrete examples.\<close>

definition sampleUser :: "string \<Rightarrow> string \<Rightarrow> string \<Rightarrow> string option \<Rightarrow> user" where
  "sampleUser i e r l =
     \<lparr> uid = i, email = e, password = ''$2b$10$hash'', firstName = Some ''Ada'',
       lastName = Some ''Lee'', businessMobile = None, emailVerificationToken = None,
       verificationTokenExpiry = None, isEmailVerified = True, emailVerifiedAt = None,
       role = r, permissionLevel = l, companyId = None, isActive = True,
       hearAboutUs = None, hearAboutUsOther = None, resetToken = None, resetExpiry = None,
       twoFactorSecret = None, twoFactorEnabled = False \<rparr>"

definition sampleCompany :: "nat \<Rightarrow> string \<Rightarrow> string \<Rightarrow> company" where
  "sampleCompany i n sn =
     \<lparr> coId = i, name = n, shortName = sn, businessNumber = None, website = None,
       streetAddress = Some ''1 Main St'', city = Some ''Calgary'', province = Some ''AB'',
       country = Some ''Canada'', postalCode = None, phone = None, isContractor = False,
       serviceRegions = [], supportedActivities = [], capitalRetrofitTechnologies = [],
       howHeardAbout = None, howHeardAboutOther = None \<rparr>"

definition sampleStore :: store where
  "sampleStore =
     \<lparr> users = [sampleUser ''u1'' ''ann@x.io'' ''team_member'' (Some ''editor'')],
       companies = [sampleCompany 1 ''Acme Energy'' ''ACMEE''],
       joinRequests = [] \<rparr>"

definition sampleEnv :: env where
  "sampleEnv =
     \<lparr> nanoid = ''u9'', nanoid32 = ''reset-token-1'', now = 1000000, randomCode = ''482913'',
       bcryptHash = (\<lambda>p. ''$2b$10$'' @ p), emailSent = True, resetEmailSent = True \<rparr>"

text \<open>
  Stand-ins for the two library functions: a bcrypt that matches nothing, and an scrypt
  whose derived key is all zero bytes.
\<close>

definition refusingBcrypt :: "string \<Rightarrow> string \<Rightarrow> error + bool" where
  "refusingBcrypt supplied stored = Inr False"

definition zeroScrypt :: "string \<Rightarrow> string \<Rightarrow> nat \<Rightarrow> error + byte list" where
  "zeroScrypt supplied salt keylen = Inr (replicate keylen 0)"

definition sampleSession :: "string option \<Rightarrow> session" where
  "sampleSession i = \<lparr> userId = i, emailVerified = None, registrationVerification = None \<rparr>"

definition sampleBody :: "string \<Rightarrow> string \<Rightarrow> registerBody" where
  "sampleBody e p =
     \<lparr> req_email = e, req_password = p, req_firstName = Some ''Bob'',
       req_lastName = Some ''Ray'', req_businessMobile = None, req_userType = None,
       req_role = None, req_companyName = None, req_companyShortName = None,
       req_businessNumber = None, req_companyWebsite = None, req_streetAddress = None,
       req_city = None, req_province = None, req_country = None, req_postalCode = None,
       req_howHeardAbout = None, req_howHeardAboutOther = None,
       req_agreeToPortalServices = False, req_agreeToBusinessInfo = False,
       req_agreeToContact = False, req_phone = None, req_website = None,
       req_serviceRegions = None, req_supportedActivities = None,
       req_capitalRetrofitTechnologies = None, req_hasCodeOfConductAgreement = False,
       req_hasPrivacyPolicyAgreement = False, req_hasTermsOfServiceAgreement = False,
       req_hasDataSharingAgreement = False, req_acceptTerms = False,
       req_acceptBusinessInfo = False, req_acceptContact = False,
       req_codeOfConductAgreed = False, req_contractorCompanyExists = None,
       req_selectedCompanyId = None \<rparr>"

text \<open>A contractor's registration of a new company, every field and agreement given.\<close>

definition contractorBody :: "string \<Rightarrow> string \<Rightarrow> string \<Rightarrow> registerBody" where
  "contractorBody e p cn =
     (sampleBody e p)
       \<lparr> req_userType := Some ''contractor_account_owner'', req_companyName := Some cn,
         req_streetAddress := Some ''2 Side St'', req_city := Some ''Edmonton'',
         req_province := Some ''AB'', req_country := Some ''Canada'',
         req_hasCodeOfConductAgreement := True, req_hasPrivacyPolicyAgreement := True,
         req_hasTermsOfServiceAgreement := True, req_hasDataSharingAgreement := True \<rparr>"

text \<open>A store in which every one of the 100 candidates for a base is taken.\<close>

definition crowdedStore :: "string \<Rightarrow> store" where
  "crowdedStore base =
     \<lparr> users = [],
       companies = map (\<lambda>k. sampleCompany k ''Taken'' (candidate base k)) [1..<101],
       joinRequests = [] \<rparr>"

text \<open>A team member's registration that names a company.\<close>

definition teamMemberBody :: "string \<Rightarrow> string \<Rightarrow> string \<Rightarrow> registerBody" where
  "teamMemberBody e p cn =
     (sampleBody e p)\<lparr> req_userType := Some ''team_member'', req_companyName := Some cn \<rparr>"

text \<open>A store whose one user has a verification code that expires at 1600000.\<close>

definition pendingStore :: store where
  "pendingStore =
     \<lparr> users = [(sampleUser ''u2'' ''cy@x.io'' ''team_member'' (Some ''editor''))
                  \<lparr>isEmailVerified := False, emailVerificationToken := Some ''482913'',
                   verificationTokenExpiry := Some 1600000\<rparr>],
       companies = [], joinRequests = [] \<rparr>"

text \<open>A store whose one user has two-factor authentication enabled.\<close>

definition enrolledStore :: store where
  "enrolledStore =
     \<lparr> users = [(sampleUser ''u1'' ''ann@x.io'' ''company_admin'' (Some ''owner''))
                  \<lparr>twoFactorSecret := Some ''OLDSECRET'', twoFactorEnabled := True\<rparr>],
       companies = [], joinRequests = [] \<rparr>"

section \<open>Properties of the permission model\<close>

lemma indexOf_levels_levelName:
  "indexOf levels (levelName l) = int (ordinal l)"
  by (cases l) (simp_all add: levels_def)

text \<open>
  Claim C3, as the code has it. hasPermissionLevel returns true for every user with role
  company_admin or system_admin whatever the permission level; for a user with role
  team_member it returns true exactly when the ordinal of the user's level (viewer when
  none is stored) is at least the ordinal of the required level; for a user with role
  contractor_team_member it returns false whatever the two levels are.
\<close>

theorem hasPermissionLevel_roles:
  "(role u = ''company_admin'' \<or> role u = ''system_admin''
      \<longrightarrow> hasPermissionLevel (Some u) requiredLevel)
   \<and> (role u = ''team_member'' \<and> permissionLevel u = storedLevel l
      \<longrightarrow> (hasPermissionLevel (Some u) (levelName r)
             \<longleftrightarrow> ordinal (levelOrViewer l) \<ge> ordinal r))
   \<and> (role u = ''contractor_team_member''
      \<longrightarrow> \<not> hasPermissionLevel (Some u) requiredLevel)"
proof (intro conjI impI)
  assume "role u = ''company_admin'' \<or> role u = ''system_admin''"
  then show "hasPermissionLevel (Some u) requiredLevel"
    by (auto simp: hasPermissionLevel_def)
next
  assume a: "role u = ''team_member'' \<and> permissionLevel u = storedLevel l"
  have lv: "orDefault (storedLevel l) ''viewer'' = levelName (levelOrViewer l)"
  proof (cases l)
    case None
    then show ?thesis by (simp add: storedLevel_def orDefault_def levelOrViewer_def)
  next
    case (Some x)
    then show ?thesis
      by (cases x) (simp_all add: storedLevel_def orDefault_def levelOrViewer_def)
  qed
  from a have "hasPermissionLevel (Some u) (levelName r)
      \<longleftrightarrow> indexOf levels (levelName (levelOrViewer l)) \<ge> indexOf levels (levelName r)"
    by (simp add: hasPermissionLevel_def Let_def lv)
  then show "hasPermissionLevel (Some u) (levelName r)
      \<longleftrightarrow> ordinal (levelOrViewer l) \<ge> ordinal r"
    by (simp add: indexOf_levels_levelName)
next
  assume "role u = ''contractor_team_member''"
  then show "\<not> hasPermissionLevel (Some u) requiredLevel"
    by (simp add: hasPermissionLevel_def)
qed

theorem hasPermissionLevel_roles_witness:
  "hasPermissionLevel (Some (sampleUser ''u1'' ''a@x.io'' ''system_admin'' None)) ''owner''
   \<and> \<not> hasPermissionLevel
         (Some (sampleUser ''u2'' ''b@x.io'' ''team_member'' (Some ''editor''))) ''manager''
   \<and> hasPermissionLevel
         (Some (sampleUser ''u2'' ''b@x.io'' ''team_member'' (Some ''editor''))) ''editor''
   \<and> \<not> hasPermissionLevel
         (Some (sampleUser ''u3'' ''c@x.io'' ''contractor_team_member'' (Some ''owner'')))
         ''viewer''"
proof -
  have r1: "role (sampleUser ''u1'' ''a@x.io'' ''system_admin'' None) = ''company_admin''
      \<or> role (sampleUser ''u1'' ''a@x.io'' ''system_admin'' None) = ''system_admin''"
    by (simp add: sampleUser_def)
  have r2: "role (sampleUser ''u2'' ''b@x.io'' ''team_member'' (Some ''editor'')) = ''team_member''
      \<and> permissionLevel (sampleUser ''u2'' ''b@x.io'' ''team_member'' (Some ''editor''))
          = storedLevel (Some Editor)"
    by (simp add: sampleUser_def storedLevel_def)
  have r3: "role (sampleUser ''u3'' ''c@x.io'' ''contractor_team_member'' (Some ''owner''))
      = ''contractor_team_member''"
    by (simp add: sampleUser_def)
  note t1 = hasPermissionLevel_roles
    [of "sampleUser ''u1'' ''a@x.io'' ''system_admin'' None" "''owner''" None Viewer]
  note t2 = hasPermissionLevel_roles
    [of "sampleUser ''u2'' ''b@x.io'' ''team_member'' (Some ''editor'')" "''x''"
        "Some Editor" Manager]
  note t2' = hasPermissionLevel_roles
    [of "sampleUser ''u2'' ''b@x.io'' ''team_member'' (Some ''editor'')" "''x''"
        "Some Editor" Editor]
  note t3 = hasPermissionLevel_roles
    [of "sampleUser ''u3'' ''c@x.io'' ''contractor_team_member'' (Some ''owner'')"
        "''viewer''" None Viewer]
  from t1 r1 have c1:
    "hasPermissionLevel (Some (sampleUser ''u1'' ''a@x.io'' ''system_admin'' None)) ''owner''"
    by blast
  from t2 r2 have c2: "\<not> hasPermissionLevel
      (Some (sampleUser ''u2'' ''b@x.io'' ''team_member'' (Some ''editor''))) ''manager''"
    by (simp add: levelOrViewer_def)
  from t2' r2 have c2': "hasPermissionLevel
      (Some (sampleUser ''u2'' ''b@x.io'' ''team_member'' (Some ''editor''))) ''editor''"
    by (simp add: levelOrViewer_def)
  from t3 r3 have c3: "\<not> hasPermissionLevel
      (Some (sampleUser ''u3'' ''c@x.io'' ''contractor_team_member'' (Some ''owner'')))
      ''viewer''"
    by blast
  from c1 c2 c2' c3 show ?thesis by blast
qed

text \<open>
  Claim C3 as stated fails for the second team-member role: a contractor_team_member
  whose level is owner is refused the level viewer, although owner is above viewer in
  the fixed order.
\<close>

theorem hasPermissionLevel_contractor_team_member_counterexample:
  "\<not> hasPermissionLevel
       (Some (sampleUser ''u3'' ''c@x.io'' ''contractor_team_member'' (Some ''owner'')))
       ''viewer''
   \<and> ordinal Owner \<ge> ordinal Viewer"
  by (simp add: hasPermissionLevel_def sampleUser_def)

text \<open>
  Claim C5. For a user with role contractor_team_member and permission level viewer,
  canContractorEdit is false for the list [view] and true for the list [view, edit]; for
  every user with role contractor_manager it is true whatever the list.
\<close>

theorem canContractorEdit_cases:
  "(role u = ''contractor_team_member'' \<and> permissionLevel u = Some ''viewer''
      \<longrightarrow> \<not> canContractorEdit (Some u) [''view'']
          \<and> canContractorEdit (Some u) [''view'', ''edit''])
   \<and> (role u = ''contractor_manager'' \<longrightarrow> canContractorEdit (Some u) applicationPermissions)"
  by (simp add: canContractorEdit_def startsWith_def includesStr_def)

theorem canContractorEdit_cases_witness:
  "\<not> canContractorEdit
       (Some (sampleUser ''u3'' ''c@x.io'' ''contractor_team_member'' (Some ''viewer'')))
       [''view'']
   \<and> canContractorEdit
       (Some (sampleUser ''u3'' ''c@x.io'' ''contractor_team_member'' (Some ''viewer'')))
       [''view'', ''edit'']
   \<and> canContractorEdit (Some (sampleUser ''u4'' ''d@x.io'' ''contractor_manager'' None)) []"
proof -
  have r1: "role (sampleUser ''u3'' ''c@x.io'' ''contractor_team_member'' (Some ''viewer''))
        = ''contractor_team_member''
      \<and> permissionLevel (sampleUser ''u3'' ''c@x.io'' ''contractor_team_member'' (Some ''viewer''))
        = Some ''viewer''"
    by (simp add: sampleUser_def)
  have r2: "role (sampleUser ''u4'' ''d@x.io'' ''contractor_manager'' None) = ''contractor_manager''"
    by (simp add: sampleUser_def)
  from r1 canContractorEdit_cases
    [of "sampleUser ''u3'' ''c@x.io'' ''contractor_team_member'' (Some ''viewer'')" "[]"]
  have c1: "\<not> canContractorEdit
       (Some (sampleUser ''u3'' ''c@x.io'' ''contractor_team_member'' (Some ''viewer'')))
       [''view'']
   \<and> canContractorEdit
       (Some (sampleUser ''u3'' ''c@x.io'' ''contractor_team_member'' (Some ''viewer'')))
       [''view'', ''edit'']"
    by blast
  from r2 canContractorEdit_cases
    [of "sampleUser ''u4'' ''d@x.io'' ''contractor_manager'' None" "[]"]
  have c2: "canContractorEdit (Some (sampleUser ''u4'' ''d@x.io'' ''contractor_manager'' None)) []"
    by blast
  from c1 c2 show ?thesis by blast
qed

section \<open>Facts about the store\<close>

lemma find_map_same:
  assumes "\<And>x. P (g x) = P x"
  shows "find P (map g xs) = map_option g (find P xs)"
  using assms by (induction xs) auto

lemma getUserByEmail_updateUser:
  assumes "\<And>x. email (f x) = email x"
  shows "getUserByEmail (fst (updateUser st i f)) e
       = map_option (\<lambda>u. if uid u = i then f u else u) (getUserByEmail st e)"
  using assms by (simp add: getUserByEmail_def updateUser_def find_map_same)

lemma getUserById_updateUser:
  assumes "\<And>x. uid (f x) = uid x"
  shows "getUserById (fst (updateUser st i f)) j
       = map_option (\<lambda>u. if uid u = i then f u else u) (getUserById st j)"
  using assms by (simp add: getUserById_def updateUser_def find_map_same)

lemma getUserById_uid: "getUserById st i = Some u \<Longrightarrow> uid u = i"
  by (auto simp: getUserById_def find_Some_iff)

lemma getUserByEmail_email: "getUserByEmail st e = Some u \<Longrightarrow> email u = e"
  by (auto simp: getUserByEmail_def find_Some_iff)

lemma splitOn_single: "c \<notin> set s \<Longrightarrow> splitOn c s = [s]"
  by (induction s) auto

lemma legacySalt_no_delimiter: "CHR ''.'' \<notin> set stored \<Longrightarrow> legacySalt stored = None"
  by (simp add: legacySalt_def splitOn_single elemAt_def)

section \<open>Properties of password comparison\<close>

text \<open>
  Claim C2, as the code has it. comparePasswords never rejects: it always settles with a
  boolean. For a stored value that does not start with the bcrypt prefix it settles with
  false when the value has no \<open>.\<close>, when the piece after the first \<open>.\<close> is empty, and
  when the piece before the first \<open>.\<close> does not decode from hexadecimal to 64 bytes. In
  every other case the answer is whether the bytes that the leading hexadecimal pairs of
  the first piece decode to are the 64 bytes scrypt derives from the supplied password
  and the second piece: what follows the leading hexadecimal pairs, and any piece after
  the second, is ignored. The two library functions are arbitrary, scrypt returning 64
  bytes when asked for 64.
\<close>

theorem comparePasswords_fails_closed:
  assumes keylen: "\<forall>s salt key. scryptAsync s salt 64 = Inr key \<longrightarrow> length key = 64"
  shows "(\<exists>r. comparePasswords bcryptCompare scryptAsync supplied stored = Inr r)
    \<and> (\<not> startsWith stored ''$2b$''
        \<and> (CHR ''.'' \<notin> set stored \<or> \<not> truthy (legacySalt stored)
            \<or> (legacyDigest stored = Some h \<and> length (fromHex h) \<noteq> 64))
       \<longrightarrow> comparePasswords bcryptCompare scryptAsync supplied stored = Inr False)
    \<and> (\<not> startsWith stored ''$2b$'' \<and> legacySalt stored = Some salt \<and> salt \<noteq> []
        \<and> legacyDigest stored = Some h \<and> scryptAsync supplied salt 64 = Inr key
       \<longrightarrow> comparePasswords bcryptCompare scryptAsync supplied stored
           = Inr (fromHex h = key))"
proof (intro conjI impI)
  show "\<exists>r. comparePasswords bcryptCompare scryptAsync supplied stored = Inr r"
    by (cases "comparePasswordsTry bcryptCompare scryptAsync supplied stored")
       (auto simp: comparePasswords_def)
next
  assume a: "\<not> startsWith stored ''$2b$''
      \<and> (CHR ''.'' \<notin> set stored \<or> \<not> truthy (legacySalt stored)
          \<or> (legacyDigest stored = Some h \<and> length (fromHex h) \<noteq> 64))"
  then have notCurrent: "\<not> startsWith stored ''$2b$''" by (rule conjunct1)
  from a have malformed: "CHR ''.'' \<notin> set stored \<or> \<not> truthy (legacySalt stored)
      \<or> (legacyDigest stored = Some h \<and> length (fromHex h) \<noteq> 64)" by (rule conjunct2)
  show "comparePasswords bcryptCompare scryptAsync supplied stored = Inr False"
  proof (cases "truthy (legacySalt stored)")
    case False
    then show ?thesis using notCurrent
      by (auto simp: comparePasswords_def comparePasswordsTry_def legacySalt_def truthy_def
          Let_def split: option.splits sum.splits)
  next
    case True
    with malformed legacySalt_no_delimiter [of stored]
    have d: "legacyDigest stored = Some h \<and> length (fromHex h) \<noteq> 64"
      by (auto simp: truthy_def)
    show ?thesis using notCurrent d keylen
      by (auto simp: comparePasswords_def comparePasswordsTry_def legacySalt_def
          legacyDigest_def timingSafeEqual_def Let_def split: option.splits sum.splits if_splits)
  qed
next
  assume "\<not> startsWith stored ''$2b$'' \<and> legacySalt stored = Some salt \<and> salt \<noteq> []
      \<and> legacyDigest stored = Some h \<and> scryptAsync supplied salt 64 = Inr key"
  then show "comparePasswords bcryptCompare scryptAsync supplied stored = Inr (fromHex h = key)"
    by (auto simp: comparePasswords_def comparePasswordsTry_def legacySalt_def
        legacyDigest_def timingSafeEqual_def Let_def)
qed

theorem comparePasswords_fails_closed_witness:
  "comparePasswords refusingBcrypt zeroScrypt ''Abcdef1!'' ''plaintext'' = Inr False
   \<and> comparePasswords refusingBcrypt zeroScrypt ''Abcdef1!'' ''00ff.'' = Inr False
   \<and> comparePasswords refusingBcrypt zeroScrypt ''Abcdef1!'' ''00zz.na'' = Inr False
   \<and> comparePasswords refusingBcrypt zeroScrypt ''Abcdef1!'' ''00ff.na''
       = Inr (fromHex ''00ff'' = replicate 64 0)"
proof -
  have k: "\<forall>s salt key. zeroScrypt s salt 64 = Inr key \<longrightarrow> length key = 64"
    by (auto simp: zeroScrypt_def)
  have h1: "\<not> startsWith ''plaintext'' ''$2b$''
      \<and> (CHR ''.'' \<notin> set ''plaintext'' \<or> \<not> truthy (legacySalt ''plaintext'')
          \<or> (legacyDigest ''plaintext'' = Some [] \<and> length (fromHex []) \<noteq> 64))"
    by (simp add: startsWith_def)
  have h2: "\<not> startsWith ''00ff.'' ''$2b$''
      \<and> (CHR ''.'' \<notin> set ''00ff.'' \<or> \<not> truthy (legacySalt ''00ff.'')
          \<or> (legacyDigest ''00ff.'' = Some [] \<and> length (fromHex []) \<noteq> 64))"
    by (simp add: startsWith_def legacySalt_def elemAt_def truthy_def)
  have h3: "\<not> startsWith ''00zz.na'' ''$2b$''
      \<and> (CHR ''.'' \<notin> set ''00zz.na'' \<or> \<not> truthy (legacySalt ''00zz.na'')
          \<or> (legacyDigest ''00zz.na'' = Some ''00zz'' \<and> length (fromHex ''00zz'') \<noteq> 64))"
    by (simp add: startsWith_def legacyDigest_def elemAt_def hexVal_def charCode_def)
  have h4: "\<not> startsWith ''00ff.na'' ''$2b$'' \<and> legacySalt ''00ff.na'' = Some ''na''
      \<and> ''na'' \<noteq> [] \<and> legacyDigest ''00ff.na'' = Some ''00ff''
      \<and> zeroScrypt ''Abcdef1!'' ''na'' 64 = Inr (replicate 64 0)"
    by (simp add: startsWith_def legacyDigest_def legacySalt_def elemAt_def zeroScrypt_def)
  note t1 = comparePasswords_fails_closed [where scryptAsync = zeroScrypt, OF k,
      where bcryptCompare = refusingBcrypt and supplied = "''Abcdef1!''"
        and stored = "''plaintext''" and h = "[]" and salt = "[]" and key = "[]"]
  note t2 = comparePasswords_fails_closed [where scryptAsync = zeroScrypt, OF k,
      where bcryptCompare = refusingBcrypt and supplied = "''Abcdef1!''"
        and stored = "''00ff.''" and h = "[]" and salt = "[]" and key = "[]"]
  note t3 = comparePasswords_fails_closed [where scryptAsync = zeroScrypt, OF k,
      where bcryptCompare = refusingBcrypt and supplied = "''Abcdef1!''"
        and stored = "''00zz.na''" and h = "''00zz''" and salt = "[]" and key = "[]"]
  note t4 = comparePasswords_fails_closed [where scryptAsync = zeroScrypt, OF k,
      where bcryptCompare = refusingBcrypt and supplied = "''Abcdef1!''"
        and stored = "''00ff.na''" and h = "''00ff''" and salt = "''na''"
        and key = "replicate 64 0"]
  from t1 h1 have r1: "comparePasswords refusingBcrypt zeroScrypt ''Abcdef1!'' ''plaintext''
      = Inr False" by blast
  from t2 h2 have r2: "comparePasswords refusingBcrypt zeroScrypt ''Abcdef1!'' ''00ff.''
      = Inr False" by blast
  from t3 h3 have r3: "comparePasswords refusingBcrypt zeroScrypt ''Abcdef1!'' ''00zz.na''
      = Inr False" by blast
  from t4 h4 have r4: "comparePasswords refusingBcrypt zeroScrypt ''Abcdef1!'' ''00ff.na''
      = Inr (fromHex ''00ff'' = replicate 64 0)" by blast
  from r1 r2 r3 r4 show ?thesis by blast
qed

text \<open>
  Claim C2 as stated fails on values that are malformed in another way. A stored value
  whose first piece is 128 hexadecimal digits followed by \<open>zz\<close>, and one with a third
  piece after the salt, are not of the legacy format, yet the code compares them and
  settles with true when the derived key matches the leading 64 bytes.
\<close>

theorem comparePasswords_malformed_accepted_counterexample:
  "\<not> startsWith (replicate 128 (CHR ''0'') @ ''zz.salt'') ''$2b$''
   \<and> \<not> legacyWellFormed (replicate 128 (CHR ''0'') @ ''zz.salt'')
   \<and> comparePasswords refusingBcrypt zeroScrypt ''Abcdef1!''
        (replicate 128 (CHR ''0'') @ ''zz.salt'') = Inr True
   \<and> \<not> startsWith (replicate 128 (CHR ''0'') @ ''.salt.extra'') ''$2b$''
   \<and> \<not> legacyWellFormed (replicate 128 (CHR ''0'') @ ''.salt.extra'')
   \<and> comparePasswords refusingBcrypt zeroScrypt ''Abcdef1!''
        (replicate 128 (CHR ''0'') @ ''.salt.extra'') = Inr True"
  by code_simp

section \<open>Properties of the password-reset flow\<close>

text \<open>
  Claim C1, what the code does. After POST /request-reset has stored a reset token for
  an existing user, a POST /reset-password for that email with a password that meets the
  policy answers 200 and overwrites the password hash, but it neither checks nor clears
  the token: the reset token and its expiry stay on the user record as issued, and a
  second POST /reset-password for the same email succeeds again. The single-use
  invariant of the claim does not hold on the code.
\<close>

theorem resetPassword_does_not_consume_token:
  assumes nonempty: "e \<noteq> []" and found: "getUserByEmail st e = Some u"
    and pw: "passwordRegex newPassword" and pw2: "passwordRegex again"
  shows "getUserByEmail (fst (requestReset ev st (Some e))) e
           = Some (u\<lparr>resetToken := Some (nanoid32 ev),
                     resetExpiry := Some (now ev + 60 * 60 * 1000)\<rparr>)
    \<and> snd (resetPassword ev2 (fst (requestReset ev st (Some e))) e newPassword)
           = json 200 ''Password updated successfully''
    \<and> getUserByEmail
         (fst (resetPassword ev2 (fst (requestReset ev st (Some e))) e newPassword)) e
           = Some (u\<lparr>resetToken := Some (nanoid32 ev),
                     resetExpiry := Some (now ev + 60 * 60 * 1000),
                     password := bcryptHash ev2 newPassword\<rparr>)
    \<and> snd (resetPassword ev3
              (fst (resetPassword ev2 (fst (requestReset ev st (Some e))) e newPassword))
              e again)
           = json 200 ''Password updated successfully''"
proof -
  let ?u1 = "u\<lparr>resetToken := Some (nanoid32 ev), resetExpiry := Some (now ev + 60 * 60 * 1000)\<rparr>"
  let ?st1 = "fst (requestReset ev st (Some e))"
  let ?st2 = "fst (resetPassword ev2 ?st1 e newPassword)"
  have g1: "getUserByEmail ?st1 e = Some ?u1"
    using nonempty found by (simp add: requestReset_def Let_def getUserByEmail_updateUser)
  have r2: "snd (resetPassword ev2 ?st1 e newPassword) = json 200 ''Password updated successfully''"
    using pw g1 by (simp add: resetPassword_def Let_def)
  have st2: "?st2 = fst (updateUser ?st1 (uid ?u1) (\<lambda>x. x\<lparr>password := bcryptHash ev2 newPassword\<rparr>))"
    using pw g1 by (simp add: resetPassword_def Let_def)
  have g2: "getUserByEmail ?st2 e = Some (?u1\<lparr>password := bcryptHash ev2 newPassword\<rparr>)"
    unfolding st2 using g1 by (simp add: getUserByEmail_updateUser)
  have r3: "snd (resetPassword ev3 ?st2 e again) = json 200 ''Password updated successfully''"
    using pw2 g2 by (simp add: resetPassword_def Let_def)
  from g1 r2 g2 r3 show ?thesis by simp
qed

theorem resetPassword_does_not_consume_token_witness:
  "map_option resetToken
     (getUserByEmail
        (fst (resetPassword sampleEnv (fst (requestReset sampleEnv sampleStore (Some ''ann@x.io'')))
               ''ann@x.io'' ''Abcdef1!'')) ''ann@x.io'')
     = Some (Some ''reset-token-1'')
   \<and> status (snd (resetPassword sampleEnv
        (fst (resetPassword sampleEnv (fst (requestReset sampleEnv sampleStore (Some ''ann@x.io'')))
               ''ann@x.io'' ''Abcdef1!'')) ''ann@x.io'' ''Zyxwvu9?'')) = 200"
proof -
  have h1: "''ann@x.io'' \<noteq> []" by simp
  have h2: "getUserByEmail sampleStore ''ann@x.io''
      = Some (sampleUser ''u1'' ''ann@x.io'' ''team_member'' (Some ''editor''))"
    by (simp add: getUserByEmail_def sampleStore_def sampleUser_def)
  have h3: "passwordRegex ''Abcdef1!''" by code_simp
  have h4: "passwordRegex ''Zyxwvu9?''" by code_simp
  from resetPassword_does_not_consume_token [OF h1 h2 h3 h4, of sampleEnv sampleEnv sampleEnv]
  show ?thesis by (simp add: sampleEnv_def json_def)
qed

text \<open>
  The input where the code departs from claim C1: after a successful
  POST /reset-password the token issued by POST /request-reset is still the user's reset
  token.
\<close>

theorem resetPassword_token_survives:
  "status (snd (resetPassword sampleEnv (fst (requestReset sampleEnv sampleStore (Some ''ann@x.io'')))
               ''ann@x.io'' ''Abcdef1!'')) = 200
   \<and> map_option resetToken
     (getUserByEmail
        (fst (resetPassword sampleEnv (fst (requestReset sampleEnv sampleStore (Some ''ann@x.io'')))
               ''ann@x.io'' ''Abcdef1!'')) ''ann@x.io'')
     = Some (Some ''reset-token-1'')"
  by code_simp

section \<open>Properties of the authentication middleware\<close>

text \<open>
  Claim C8. requireAuth answers 401 when the session carries no userId and when the
  lookup of the session's userId finds no user, answers 403 when the user found has
  isActive = false, and otherwise hands the user found to the next handler. It reads the
  store on every request: once a user has been deactivated in the store, the next
  request with the same, still valid session is answered 403.
\<close>

theorem requireAuth_cases:
  "(\<not> truthy (userId sess)
      \<longrightarrow> requireAuth st sess = Inl (json 401 ''Authentication required''))
   \<and> (truthy (userId sess) \<and> userId sess = Some i \<and> getUserById st i = None
      \<longrightarrow> requireAuth st sess = Inl (json 401 ''User not found''))
   \<and> (truthy (userId sess) \<and> userId sess = Some i \<and> getUserById st i = Some u
        \<and> \<not> isActive u
      \<longrightarrow> requireAuth st sess
          = Inl (json 403 ''Your account has been deactivated. Please contact support.''))
   \<and> (truthy (userId sess) \<and> userId sess = Some i \<and> getUserById st i = Some u \<and> isActive u
      \<longrightarrow> requireAuth st sess = Inr u)
   \<and> (truthy (userId sess) \<and> userId sess = Some i \<and> getUserById st i = Some u
      \<longrightarrow> requireAuth (fst (updateUser st i (\<lambda>x. x\<lparr>isActive := False\<rparr>))) sess
          = Inl (json 403 ''Your account has been deactivated. Please contact support.''))"
  by (auto simp: requireAuth_def getUserById_updateUser dest: getUserById_uid)

theorem requireAuth_cases_witness:
  "requireAuth sampleStore (sampleSession None) = Inl (json 401 ''Authentication required'')
   \<and> requireAuth sampleStore (sampleSession (Some ''u7'')) = Inl (json 401 ''User not found'')
   \<and> requireAuth sampleStore (sampleSession (Some ''u1''))
       = Inr (sampleUser ''u1'' ''ann@x.io'' ''team_member'' (Some ''editor''))
   \<and> requireAuth (fst (updateUser sampleStore ''u1'' (\<lambda>x. x\<lparr>isActive := False\<rparr>)))
         (sampleSession (Some ''u1''))
       = Inl (json 403 ''Your account has been deactivated. Please contact support.'')"
proof -
  let ?ann = "sampleUser ''u1'' ''ann@x.io'' ''team_member'' (Some ''editor'')"
  have a: "\<not> truthy (userId (sampleSession None))"
    by (simp add: sampleSession_def truthy_def)
  have b: "truthy (userId (sampleSession (Some ''u7'')))
      \<and> userId (sampleSession (Some ''u7'')) = Some ''u7''
      \<and> getUserById sampleStore ''u7'' = None"
    by (simp add: sampleSession_def truthy_def getUserById_def sampleStore_def sampleUser_def)
  have c: "truthy (userId (sampleSession (Some ''u1'')))
      \<and> userId (sampleSession (Some ''u1'')) = Some ''u1''
      \<and> getUserById sampleStore ''u1'' = Some ?ann \<and> isActive ?ann"
    by (simp add: sampleSession_def truthy_def getUserById_def sampleStore_def sampleUser_def)
  from a requireAuth_cases [of "sampleSession None" sampleStore "''u1''" ?ann]
  have r1: "requireAuth sampleStore (sampleSession None)
      = Inl (json 401 ''Authentication required'')"
    by blast
  from b requireAuth_cases [of "sampleSession (Some ''u7'')" sampleStore "''u7''" ?ann]
  have r2: "requireAuth sampleStore (sampleSession (Some ''u7''))
      = Inl (json 401 ''User not found'')"
    by blast
  from c requireAuth_cases [of "sampleSession (Some ''u1'')" sampleStore "''u1''" ?ann]
  have r3: "requireAuth sampleStore (sampleSession (Some ''u1'')) = Inr ?ann
     \<and> requireAuth (fst (updateUser sampleStore ''u1'' (\<lambda>x. x\<lparr>isActive := False\<rparr>)))
         (sampleSession (Some ''u1''))
       = Inl (json 403 ''Your account has been deactivated. Please contact support.'')"
    by blast
  from r1 r2 r3 show ?thesis by blast
qed

section \<open>Properties of two-factor enrolment\<close>

lemma requireAuth_Inr: "requireAuth st sess = Inr u \<Longrightarrow> getUserById st (uid u) = Some u"
  by (auto simp: requireAuth_def split: if_splits option.splits dest: getUserById_uid)

text \<open>
  Claim C4, what the code does. For a request that passed requireAuth with a secret and a
  token: when the token is not valid for the submitted secret, POST /2fa/verify answers
  400 and leaves the store as it was; when the token is valid, it answers 200 and stores
  the submitted secret with twoFactorEnabled = true on the user. Nothing in the handler
  reads the user's twoFactorEnabled: the second part holds for a user whose two-factor
  authentication is already enabled too.
\<close>

theorem twoFactorVerify_outcomes:
  "(requireAuth st sess = Inr u \<and> truthy secretOpt \<and> truthy tokenOpt
      \<and> \<not> verifyTwoFactorToken (orDefault tokenOpt []) (orDefault secretOpt [])
     \<longrightarrow> twoFactorVerify verifyTwoFactorToken st sess secretOpt tokenOpt
         = (st, json 400 ''Invalid verification code''))
   \<and> (requireAuth st sess = Inr u \<and> truthy secretOpt \<and> truthy tokenOpt
      \<and> verifyTwoFactorToken (orDefault tokenOpt []) (orDefault secretOpt [])
     \<longrightarrow> snd (twoFactorVerify verifyTwoFactorToken st sess secretOpt tokenOpt)
           = json 200 ''Two-factor authentication enabled successfully''
       \<and> getUserById (fst (twoFactorVerify verifyTwoFactorToken st sess secretOpt tokenOpt))
           (uid u)
           = Some (u\<lparr>twoFactorSecret := secretOpt, twoFactorEnabled := True\<rparr>))"
proof (intro conjI impI)
  assume "requireAuth st sess = Inr u \<and> truthy secretOpt \<and> truthy tokenOpt
      \<and> \<not> verifyTwoFactorToken (orDefault tokenOpt []) (orDefault secretOpt [])"
  then show "twoFactorVerify verifyTwoFactorToken st sess secretOpt tokenOpt
      = (st, json 400 ''Invalid verification code'')"
    by (simp add: twoFactorVerify_def Let_def)
next
  assume a: "requireAuth st sess = Inr u \<and> truthy secretOpt \<and> truthy tokenOpt
      \<and> verifyTwoFactorToken (orDefault tokenOpt []) (orDefault secretOpt [])"
  then show "snd (twoFactorVerify verifyTwoFactorToken st sess secretOpt tokenOpt)
      = json 200 ''Two-factor authentication enabled successfully''"
    by (simp add: twoFactorVerify_def Let_def)
  from a have ra: "requireAuth st sess = Inr u" by (rule conjunct1)
  have byId: "getUserById st (uid u) = Some u" by (rule requireAuth_Inr [OF ra])
  from a have "fst (twoFactorVerify verifyTwoFactorToken st sess secretOpt tokenOpt)
      = fst (updateUser st (uid u) (\<lambda>x. x\<lparr>twoFactorSecret := secretOpt, twoFactorEnabled := True\<rparr>))"
    by (simp add: twoFactorVerify_def Let_def)
  then show "getUserById (fst (twoFactorVerify verifyTwoFactorToken st sess secretOpt tokenOpt))
      (uid u) = Some (u\<lparr>twoFactorSecret := secretOpt, twoFactorEnabled := True\<rparr>)"
    using byId by (simp add: getUserById_updateUser)
qed

text \<open>
  The input where the code departs from claim C4. The user u1 has two-factor
  authentication enabled with the secret OLDSECRET. POST /2fa/setup refuses the session
  with 400 (already enabled), but POST /2fa/verify with a new secret and a token that is
  valid for it answers 200 and stores the new secret.
\<close>

theorem twoFactorVerify_when_enabled:
  "map_option twoFactorEnabled (getUserById enrolledStore ''u1'') = Some True
   \<and> status (snd (twoFactorSetup (\<lambda>e. ''NEWSECRET'') enrolledStore (sampleSession (Some ''u1''))))
       = 400
   \<and> status (snd (twoFactorVerify (\<lambda>token secret. token = ''123456'') enrolledStore
                    (sampleSession (Some ''u1'')) (Some ''NEWSECRET'') (Some ''123456'')))
       = 200
   \<and> map_option twoFactorSecret
       (getUserById
          (fst (twoFactorVerify (\<lambda>token secret. token = ''123456'') enrolledStore
                  (sampleSession (Some ''u1'')) (Some ''NEWSECRET'') (Some ''123456''))) ''u1'')
       = Some (Some ''NEWSECRET'')"
proof -
  let ?u = "(sampleUser ''u1'' ''ann@x.io'' ''company_admin'' (Some ''owner''))
                  \<lparr>twoFactorSecret := Some ''OLDSECRET'', twoFactorEnabled := True\<rparr>"
  let ?v = "\<lambda>(token::string) (secret::string). token = ''123456''"
  have enabled: "map_option twoFactorEnabled (getUserById enrolledStore ''u1'') = Some True"
    by code_simp
  have refused: "status (snd (twoFactorSetup (\<lambda>e. ''NEWSECRET'') enrolledStore
      (sampleSession (Some ''u1'')))) = 400"
    by code_simp
  have auth: "requireAuth enrolledStore (sampleSession (Some ''u1'')) = Inr ?u"
    by (simp add: requireAuth_def enrolledStore_def sampleSession_def truthy_def
        getUserById_def sampleUser_def)
  have h: "requireAuth enrolledStore (sampleSession (Some ''u1'')) = Inr ?u
      \<and> truthy (Some ''NEWSECRET'') \<and> truthy (Some ''123456'')
      \<and> ?v (orDefault (Some ''123456'') []) (orDefault (Some ''NEWSECRET'') [])"
    using auth by (simp add: truthy_def orDefault_def)
  note t = twoFactorVerify_outcomes [where st = enrolledStore
      and sess = "sampleSession (Some ''u1'')" and u = ?u and secretOpt = "Some ''NEWSECRET''"
      and tokenOpt = "Some ''123456''" and verifyTwoFactorToken = ?v]
  from t h have r: "snd (twoFactorVerify ?v enrolledStore (sampleSession (Some ''u1''))
        (Some ''NEWSECRET'') (Some ''123456''))
      = json 200 ''Two-factor authentication enabled successfully''
    \<and> getUserById (fst (twoFactorVerify ?v enrolledStore (sampleSession (Some ''u1''))
        (Some ''NEWSECRET'') (Some ''123456''))) (uid ?u)
      = Some (?u\<lparr>twoFactorSecret := Some ''NEWSECRET'', twoFactorEnabled := True\<rparr>)"
    by blast
  have uid: "uid ?u = ''u1''" by (simp add: sampleUser_def)
  from r enabled refused show ?thesis
    by (simp add: uid json_def)
qed

section \<open>Facts about registration\<close>

lemma find_snoc:
  "find P (xs @ [y]) = (case find P xs of None \<Rightarrow> (if P y then Some y else None) | Some x \<Rightarrow> Some x)"
  by (induction xs) auto

lemma find_map_cong:
  assumes "\<And>x. x \<in> set xs \<Longrightarrow> P (g x) = Q x"
  shows "find P (map g xs) = map_option g (find Q xs)"
  using assms by (induction xs) auto

lemma getUserByEmail_None_iff:
  "getUserByEmail st e = None \<longleftrightarrow> (\<forall>x \<in> set (users st). email x \<noteq> e)"
  by (auto simp: getUserByEmail_def find_None_iff)

lemma upsertFields_simps [simp]:
  "uid (upsertFields d old) = uid old"
  "email (upsertFields d old) = email d"
  "emailVerificationToken (upsertFields d old) = emailVerificationToken d"
  "verificationTokenExpiry (upsertFields d old) = verificationTokenExpiry d"
  "isEmailVerified (upsertFields d old) = isEmailVerified d"
  by (simp_all add: upsertFields_def)

lemma upsertUser_new_email:
  assumes fresh: "getUserByEmail st (email d) = None"
  shows "\<exists>st1 u1. upsertUser st d = Inr (st1, u1)
      \<and> uid u1 = uid d \<and> email u1 = email d
      \<and> emailVerificationToken u1 = emailVerificationToken d
      \<and> verificationTokenExpiry u1 = verificationTokenExpiry d
      \<and> isEmailVerified u1 = isEmailVerified d
      \<and> getUserById st1 (uid d) = Some u1
      \<and> getUserByEmail st1 (email d) = Some u1
      \<and> companies st1 = companies st"
proof -
  from fresh have none: "\<And>x. x \<in> set (users st) \<Longrightarrow> email x \<noteq> email d"
    by (simp add: getUserByEmail_None_iff)
  then have noclash: "\<not> list_ex (\<lambda>u. email u = email d \<and> uid u \<noteq> uid d) (users st)"
    by (auto simp: list_ex_iff)
  show ?thesis
  proof (cases "getUserById st (uid d)")
    case None
    then have "upsertUser st d = Inr (st\<lparr>users := users st @ [d]\<rparr>, d)"
      using noclash by (simp add: upsertUser_def)
    moreover have "getUserById (st\<lparr>users := users st @ [d]\<rparr>) (uid d) = Some d"
      using None by (simp add: getUserById_def find_snoc)
    moreover have "getUserByEmail (st\<lparr>users := users st @ [d]\<rparr>) (email d) = Some d"
      using fresh by (simp add: getUserByEmail_def find_snoc)
    ultimately show ?thesis by simp
  next
    case (Some old)
    let ?g = "\<lambda>u. if uid u = uid d then upsertFields d u else u"
    let ?st1 = "st\<lparr>users := map ?g (users st)\<rparr>"
    have up: "upsertUser st d = Inr (?st1, upsertFields d old)"
      using Some noclash by (simp add: upsertUser_def)
    have old: "uid old = uid d" using Some by (rule getUserById_uid)
    have byId: "getUserById ?st1 (uid d) = Some (upsertFields d old)"
      using Some old by (simp add: getUserById_def find_map_same)
    have "find (\<lambda>u. email u = email d) (map ?g (users st))
        = map_option ?g (find (\<lambda>u. uid u = uid d) (users st))"
      by (rule find_map_cong) (use none in auto)
    then have byEmail: "getUserByEmail ?st1 (email d) = Some (upsertFields d old)"
      using Some old by (simp add: getUserByEmail_def getUserById_def)
    from up byId byEmail old show ?thesis by simp
  qed
qed

lemma userData_simps [simp]:
  "uid (userData ev b) = nanoid ev"
  "email (userData ev b) = req_email b"
  "emailVerificationToken (userData ev b) = Some (randomCode ev)"
  "verificationTokenExpiry (userData ev b) = Some (now ev + 10 * 60 * 1000)"
  "isEmailVerified (userData ev b) = False"
  by (simp_all add: userData_def)

lemma updateUser_found:
  assumes "getUserById st i = Some u" and "\<And>x. uid (f x) = uid x"
  shows "snd (updateUser st i f) = Some (f u)"
    and "getUserById (fst (updateUser st i f)) i = Some (f u)"
    and "companies (fst (updateUser st i f)) = companies st"
  using assms getUserById_uid [OF assms(1)]
  by (simp_all add: getUserById_updateUser) (simp_all add: updateUser_def)

lemma register_prelude:
  assumes pw: "passwordRegex (req_password b)"
    and fresh: "getUserByEmail st (req_email b) = None"
  shows "\<exists>st1 u1. register ev st sess b = registerBranches ev st1 sess b (Some u1)
      \<and> uid u1 = nanoid ev \<and> email u1 = req_email b
      \<and> emailVerificationToken u1 = Some (randomCode ev)
      \<and> verificationTokenExpiry u1 = Some (now ev + 10 * 60 * 1000)
      \<and> (isEmailVerified u1 \<longleftrightarrow> emailVerified sess = Some (req_email b))
      \<and> getUserById st1 (nanoid ev) = Some u1
      \<and> getUserByEmail st1 (req_email b) = Some u1
      \<and> companies st1 = companies st"
proof -
  from fresh have "getUserByEmail st (email (userData ev b)) = None" by simp
  from upsertUser_new_email [OF this]
  obtain st1 u1 where up: "upsertUser st (userData ev b) = Inr (st1, u1)"
    and u1: "uid u1 = nanoid ev" "email u1 = req_email b"
      "emailVerificationToken u1 = Some (randomCode ev)"
      "verificationTokenExpiry u1 = Some (now ev + 10 * 60 * 1000)"
      "isEmailVerified u1 = False"
    and st1: "getUserById st1 (nanoid ev) = Some u1" "getUserByEmail st1 (req_email b) = Some u1"
      "companies st1 = companies st"
    by auto
  show ?thesis
  proof (cases "emailVerified sess = Some (req_email b)")
    case False
    then have "register ev st sess b = registerBranches ev st1 sess b (Some u1)"
      using pw fresh up by (simp add: register_def)
    with u1 st1 False show ?thesis by auto
  next
    case True
    let ?f = "\<lambda>x. x\<lparr>isEmailVerified := True, emailVerifiedAt := Some (now ev)\<rparr>"
    let ?st2 = "fst (updateUser st1 (nanoid ev) ?f)"
    have upd: "snd (updateUser st1 (nanoid ev) ?f) = Some (?f u1)"
      by (rule updateUser_found [OF st1(1)]) simp
    have reg: "register ev st sess b = registerBranches ev ?st2 sess b (Some (?f u1))"
      using pw fresh up True u1(1) upd by (simp add: register_def split_beta)
    have g1: "getUserById ?st2 (nanoid ev) = Some (?f u1)"
      by (rule updateUser_found [OF st1(1)]) simp
    have g2: "getUserByEmail ?st2 (req_email b) = Some (?f u1)"
      using st1(2) u1(1) by (simp add: getUserByEmail_updateUser)
    have g3: "companies ?st2 = companies st"
      using st1(3) by (simp add: updateUser_def)
    from reg g1 g2 g3 u1 True show ?thesis
      by (intro exI [of _ ?st2] exI [of _ "?f u1"]) simp
  qed
qed

lemma getCompanyByName_companies:
  "companies st1 = companies st \<Longrightarrow> getCompanyByName st1 n = getCompanyByName st n"
  by (simp add: getCompanyByName_def)

lemma getCompanyByShortName_companies:
  "companies st1 = companies st \<Longrightarrow> getCompanyByShortName st1 n = getCompanyByShortName st n"
  by (simp add: getCompanyByShortName_def)

lemma registerTeamMember_found:
  assumes u: "getUserById st (uid u) = Some u"
    and cn: "req_companyName b = Some n" "n \<noteq> []"
    and co: "getCompanyByName st n = Some c"
  shows "fst (snd (registerTeamMember ev st sess b (Some u))) = sess"
    and "status (snd (snd (registerTeamMember ev st sess b (Some u)))) = 201"
    and "isPending (snd (snd (registerTeamMember ev st sess b (Some u)))) = Some True"
    and "replyUser (snd (snd (registerTeamMember ev st sess b (Some u))))
          = Some (u\<lparr>companyId := Some (coId c), role := ''team_member'',
                    isEmailVerified := True, emailVerifiedAt := Some (now ev)\<rparr>)"
    and "getUserById (fst (registerTeamMember ev st sess b (Some u))) (uid u)
          = Some (u\<lparr>companyId := Some (coId c), role := ''team_member'',
                    isEmailVerified := True, emailVerifiedAt := Some (now ev)\<rparr>)"
proof -
  let ?f = "\<lambda>x. x\<lparr>companyId := Some (coId c), role := ''team_member'',
                  isEmailVerified := True, emailVerifiedAt := Some (now ev)\<rparr>"
  have s: "snd (updateUser st (uid u) ?f) = Some (?f u)"
    by (rule updateUser_found [OF u]) simp
  have g: "getUserById (fst (updateUser st (uid u) ?f)) (uid u) = Some (?f u)"
    by (rule updateUser_found [OF u]) simp
  have eq: "registerTeamMember ev st sess b (Some u)
      = (fst (updateUser st (uid u) ?f), sess,
         (json 201
            ''Registration submitted successfully! Your request is pending approval from your company administrator. You will receive an email confirmation once approved.'')
           \<lparr>replyUser := Some (?f u), requiresEmailVerification := Some False,
            isPending := Some True\<rparr>)"
    using cn co s by (simp add: registerTeamMember_def truthy_def orDefault_def split_beta)
  show "fst (snd (registerTeamMember ev st sess b (Some u))) = sess"
    and "status (snd (snd (registerTeamMember ev st sess b (Some u)))) = 201"
    and "isPending (snd (snd (registerTeamMember ev st sess b (Some u)))) = Some True"
    and "replyUser (snd (snd (registerTeamMember ev st sess b (Some u)))) = Some (?f u)"
    and "getUserById (fst (registerTeamMember ev st sess b (Some u))) (uid u) = Some (?f u)"
    using g by (simp_all add: eq json_def)
qed

lemma registerTeamMember_not_found:
  assumes cn: "req_companyName b = Some n" "n \<noteq> []"
    and co: "getCompanyByName st n = None"
  shows "registerTeamMember ev st sess b usr
      = (st, sess, json 400
           ''Company not found. Please verify the exact company name or contact your company administrator.'')"
  using assms by (simp add: registerTeamMember_def truthy_def orDefault_def)

lemma shortNameLoop_candidates:
  "1 \<le> k \<Longrightarrow> k \<le> 101 \<Longrightarrow> nm = candidate base k \<Longrightarrow>
   shortNameLoop st base nm k
     = (case find (\<lambda>j. getCompanyByShortName st (candidate base j) = None) [k..<101] of
          None \<Rightarrow> (candidate base 101, 101)
        | Some j \<Rightarrow> (candidate base j, j))"
proof (induction st base nm k rule: shortNameLoop.induct)
  case (1 st base nm counter)
  show ?case
  proof (cases "counter \<le> 100")
    case False
    with "1.prems" have "counter = 101" by simp
    with "1.prems" show ?thesis by simp
  next
    case le: True
    then have upt: "[counter..<101] = counter # [Suc counter..<101]"
      by (simp add: upt_rec)
    show ?thesis
    proof (cases "getCompanyByShortName st nm")
      case None
      with le upt "1.prems" show ?thesis by simp
    next
      case (Some existing)
      have nxt: "(if Suc counter \<le> 9 then take 5 base @ showNat (Suc counter)
                  else take 4 base @ showNat (Suc counter)) = candidate base (Suc counter)"
        using "1.prems" by (simp add: candidate_def)
      have step: "shortNameLoop st base nm counter
          = shortNameLoop st base (candidate base (Suc counter)) (Suc counter)"
        using le Some nxt by (subst shortNameLoop.simps) simp
      have ih: "shortNameLoop st base (candidate base (Suc counter)) (Suc counter)
          = (case find (\<lambda>j. getCompanyByShortName st (candidate base j) = None)
                    [Suc counter..<101] of
               None \<Rightarrow> (candidate base 101, 101)
             | Some j \<Rightarrow> (candidate base j, j))"
        using "1.IH" [OF le Some] le nxt by simp
      from step ih Some upt "1.prems" show ?thesis by simp
    qed
  qed
qed

lemma shortNameLoop_firstFree:
  "shortNameLoop st base base 1
     = (case firstFree st base of
          None \<Rightarrow> (candidate base 101, 101)
        | Some k \<Rightarrow> (candidate base k, k))"
  using shortNameLoop_candidates [of 1 base base st]
  by (simp add: firstFree_def candidate_def)

lemma firstFree_None:
  assumes "\<And>k. 1 \<le> k \<Longrightarrow> k \<le> 100 \<Longrightarrow> getCompanyByShortName st (candidate base k) \<noteq> None"
  shows "firstFree st base = None"
  using assms by (auto simp: firstFree_def find_None_iff)

lemma firstFree_Some:
  assumes k: "1 \<le> k" "k \<le> 100"
    and free: "getCompanyByShortName st (candidate base k) = None"
    and taken: "\<And>j. 1 \<le> j \<Longrightarrow> j < k \<Longrightarrow> getCompanyByShortName st (candidate base j) \<noteq> None"
  shows "firstFree st base = Some k"
proof -
  have "\<exists>i<length [1..<101]. getCompanyByShortName st (candidate base ([1..<101] ! i)) = None
      \<and> k = [1..<101] ! i
      \<and> (\<forall>j<i. \<not> getCompanyByShortName st (candidate base ([1..<101] ! j)) = None)"
  proof (intro exI [of _ "k - 1"] conjI allI impI)
    show "k - 1 < length [1..<101]" using k by simp
    show "getCompanyByShortName st (candidate base ([1..<101] ! (k - 1))) = None"
      using k free by simp
    show "k = [1..<101] ! (k - 1)" using k by simp
  next
    fix j assume "j < k - 1"
    then show "\<not> getCompanyByShortName st (candidate base ([1..<101] ! j)) = None"
      using k taken [of "Suc j"] by simp
  qed
  then show ?thesis unfolding firstFree_def find_Some_iff by simp
qed

lemma firstFree_companies:
  "companies st1 = companies st \<Longrightarrow> firstFree st1 base = firstFree st base"
  by (simp add: firstFree_def getCompanyByShortName_def)

lemma firstFree_range:
  "firstFree st base = Some k \<Longrightarrow>
     1 \<le> k \<and> k \<le> 100 \<and> getCompanyByShortName st (candidate base k) = None"
  by (auto simp: firstFree_def find_Some_iff)

section \<open>Properties of registration\<close>

text \<open>
  Claim C6. A registration whose userType is team_member, with a password that meets the
  policy and an email no user holds, that names a company: when a company of exactly that
  name exists, the answer is 201 with isPending = true, the session is left as it was (no
  userId is set), and the user stored under the new id has that company's id, the role
  team_member and isEmailVerified = true; when no company has that name, the answer is
  400.
\<close>

theorem register_team_member:
  assumes pw: "passwordRegex (req_password b)"
    and fresh: "getUserByEmail st (req_email b) = None"
    and tm: "req_userType b = Some ''team_member''"
    and cn: "req_companyName b = Some n" "n \<noteq> []"
  shows "(getCompanyByName st n = Some c \<longrightarrow>
            status (snd (snd (register ev st sess b))) = 201
          \<and> isPending (snd (snd (register ev st sess b))) = Some True
          \<and> fst (snd (register ev st sess b)) = sess
          \<and> (\<exists>u. replyUser (snd (snd (register ev st sess b))) = Some u
                \<and> getUserById (fst (register ev st sess b)) (nanoid ev) = Some u
                \<and> email u = req_email b \<and> companyId u = Some (coId c)
                \<and> role u = ''team_member'' \<and> isEmailVerified u))
      \<and> (getCompanyByName st n = None \<longrightarrow>
            status (snd (snd (register ev st sess b))) = 400
          \<and> fst (snd (register ev st sess b)) = sess)"
proof -
  from register_prelude [OF pw fresh, of ev sess]
  obtain st1 u1 where reg: "register ev st sess b = registerBranches ev st1 sess b (Some u1)"
    and u1: "uid u1 = nanoid ev" "email u1 = req_email b"
    and st1: "getUserById st1 (nanoid ev) = Some u1" "companies st1 = companies st"
    by (elim exE conjE)
  have br: "registerBranches ev st1 sess b (Some u1) = registerTeamMember ev st1 sess b (Some u1)"
    using tm by (simp add: registerBranches_def isTeamMember_def)
  have byId: "getUserById st1 (uid u1) = Some u1" using st1(1) u1(1) by simp
  show ?thesis
  proof (intro conjI impI)
    assume "getCompanyByName st n = Some c"
    then have co: "getCompanyByName st1 n = Some c"
      by (simp add: getCompanyByName_companies [OF st1(2)])
    note tmf = registerTeamMember_found [OF byId cn co, of ev sess]
    show "status (snd (snd (register ev st sess b))) = 201"
      and "isPending (snd (snd (register ev st sess b))) = Some True"
      and "fst (snd (register ev st sess b)) = sess"
      unfolding reg br by (rule tmf)+
    show "\<exists>u. replyUser (snd (snd (register ev st sess b))) = Some u
        \<and> getUserById (fst (register ev st sess b)) (nanoid ev) = Some u
        \<and> email u = req_email b \<and> companyId u = Some (coId c)
        \<and> role u = ''team_member'' \<and> isEmailVerified u"
      unfolding reg br using tmf(4,5) u1 by simp
  next
    assume "getCompanyByName st n = None"
    then have co: "getCompanyByName st1 n = None"
      by (simp add: getCompanyByName_companies [OF st1(2)])
    show "status (snd (snd (register ev st sess b))) = 400"
      and "fst (snd (register ev st sess b)) = sess"
      unfolding reg br by (simp_all add: registerTeamMember_not_found [OF cn co] json_def)
  qed
qed

theorem register_team_member_witness:
  "status (snd (snd (register sampleEnv sampleStore (sampleSession None)
       (teamMemberBody ''bob@x.io'' ''Abcdef1!'' ''Acme Energy'')))) = 201
   \<and> isPending (snd (snd (register sampleEnv sampleStore (sampleSession None)
       (teamMemberBody ''bob@x.io'' ''Abcdef1!'' ''Acme Energy'')))) = Some True
   \<and> userId (fst (snd (register sampleEnv sampleStore (sampleSession None)
       (teamMemberBody ''bob@x.io'' ''Abcdef1!'' ''Acme Energy'')))) = None
   \<and> (\<exists>u. getUserById (fst (register sampleEnv sampleStore (sampleSession None)
               (teamMemberBody ''bob@x.io'' ''Abcdef1!'' ''Acme Energy''))) ''u9'' = Some u
          \<and> companyId u = Some 1 \<and> role u = ''team_member'' \<and> isEmailVerified u)
   \<and> status (snd (snd (register sampleEnv sampleStore (sampleSession None)
       (teamMemberBody ''bob@x.io'' ''Abcdef1!'' ''Acme Power'')))) = 400"
proof -
  let ?b1 = "teamMemberBody ''bob@x.io'' ''Abcdef1!'' ''Acme Energy''"
  let ?b2 = "teamMemberBody ''bob@x.io'' ''Abcdef1!'' ''Acme Power''"
  have pw: "passwordRegex (req_password ?b1)" "passwordRegex (req_password ?b2)"
    by code_simp+
  have fresh: "getUserByEmail sampleStore (req_email ?b1) = None"
    "getUserByEmail sampleStore (req_email ?b2) = None"
    by code_simp+
  have tm: "req_userType ?b1 = Some ''team_member''" "req_userType ?b2 = Some ''team_member''"
    by (simp_all add: teamMemberBody_def)
  have cn: "req_companyName ?b1 = Some ''Acme Energy''" "req_companyName ?b2 = Some ''Acme Power''"
    by (simp_all add: teamMemberBody_def)
  have ne: "''Acme Energy'' \<noteq> []" "''Acme Power'' \<noteq> []" by simp_all
  have co1: "getCompanyByName sampleStore ''Acme Energy''
      = Some (sampleCompany 1 ''Acme Energy'' ''ACMEE'')"
    by (simp add: getCompanyByName_def sampleStore_def sampleCompany_def)
  have co2: "getCompanyByName sampleStore ''Acme Power'' = None"
    by (simp add: getCompanyByName_def sampleStore_def sampleCompany_def)
  note t1 = register_team_member [OF pw(1) fresh(1) tm(1) cn(1) ne(1),
      where c = "sampleCompany 1 ''Acme Energy'' ''ACMEE''" and ev = sampleEnv
        and sess = "sampleSession None"]
  note t2 = register_team_member [OF pw(2) fresh(2) tm(2) cn(2) ne(2),
      where c = "sampleCompany 1 ''Acme Energy'' ''ACMEE''" and ev = sampleEnv
        and sess = "sampleSession None"]
  from t1 co1 t2 co2 show ?thesis
    by (auto simp: sampleSession_def sampleEnv_def sampleCompany_def)
qed

lemma registerContractor_rejects:
  assumes notJoin: "\<not> (userRole b = Some ''contractor_individual''
        \<and> req_contractorCompanyExists b = Some ''yes'' \<and> truthyId (req_selectedCompanyId b))"
    and missing: "\<not> truthy (req_companyName b) \<or> \<not> truthy (req_streetAddress b)
        \<or> \<not> truthy (req_city b) \<or> \<not> truthy (req_province b) \<or> \<not> truthy (req_country b)
        \<or> \<not> (req_hasCodeOfConductAgreement b \<or> req_codeOfConductAgreed b)
        \<or> \<not> (req_hasTermsOfServiceAgreement b \<or> req_acceptTerms b \<or> req_agreeToPortalServices b)
        \<or> \<not> (req_hasPrivacyPolicyAgreement b \<or> req_acceptBusinessInfo b \<or> req_agreeToBusinessInfo b)
        \<or> \<not> (req_hasDataSharingAgreement b \<or> req_acceptContact b \<or> req_agreeToContact b)"
  shows "fst (registerContractor ev st sess b usr) = st"
    and "status (snd (snd (registerContractor ev st sess b usr))) = 400"
proof -
  have "registerContractor ev st sess b usr
      = (st, sess, json 400
           ''All business information fields are required for contractor registration'')
    \<or> registerContractor ev st sess b usr
      = (st, sess, json 400
           ''You must agree to all terms and conditions to register as a contractor'')"
    using notJoin missing unfolding registerContractor_def Let_def
    by (simp only: if_False if_True split: if_splits) auto
  then show "fst (registerContractor ev st sess b usr) = st"
    and "status (snd (snd (registerContractor ev st sess b usr))) = 400"
    by (auto simp: json_def)
qed


text \<open>
  Claim C10. A registration that passes the password policy and the duplicate-email check
  and is then refused by a branch's own validation (a team member naming a company that
  does not exist; a contractor registering a new company without a required business
  address field or without one of the four agreements) is answered 400, yet the user
  record written earlier in the same request stays in the store: the email that no user
  held before the request is held by the user with the new id after it.
\<close>

theorem register_rejection_keeps_user:
  assumes pw: "passwordRegex (req_password b)"
    and fresh: "getUserByEmail st (req_email b) = None"
    and rejected:
      "(req_userType b = Some ''team_member'' \<and> req_companyName b = Some n \<and> n \<noteq> []
          \<and> getCompanyByName st n = None)
       \<or> (req_userType b \<noteq> Some ''team_member''
          \<and> (userRole b = Some ''contractor_individual''
               \<or> userRole b = Some ''contractor_account_owner'')
          \<and> \<not> (userRole b = Some ''contractor_individual''
                 \<and> req_contractorCompanyExists b = Some ''yes''
                 \<and> truthyId (req_selectedCompanyId b))
          \<and> (\<not> truthy (req_companyName b) \<or> \<not> truthy (req_streetAddress b)
               \<or> \<not> truthy (req_city b) \<or> \<not> truthy (req_province b)
               \<or> \<not> truthy (req_country b)
               \<or> \<not> (req_hasCodeOfConductAgreement b \<or> req_codeOfConductAgreed b)
               \<or> \<not> (req_hasTermsOfServiceAgreement b \<or> req_acceptTerms b
                      \<or> req_agreeToPortalServices b)
               \<or> \<not> (req_hasPrivacyPolicyAgreement b \<or> req_acceptBusinessInfo b
                      \<or> req_agreeToBusinessInfo b)
               \<or> \<not> (req_hasDataSharingAgreement b \<or> req_acceptContact b
                      \<or> req_agreeToContact b)))"
  shows "status (snd (snd (register ev st sess b))) = 400
      \<and> (\<exists>u. getUserByEmail (fst (register ev st sess b)) (req_email b) = Some u
             \<and> uid u = nanoid ev)
      \<and> fst (register ev st sess b) \<noteq> st"
proof -
  from register_prelude [OF pw fresh, of ev sess]
  obtain st1 u1 where reg: "register ev st sess b = registerBranches ev st1 sess b (Some u1)"
    and u1: "uid u1 = nanoid ev"
    and st1: "getUserByEmail st1 (req_email b) = Some u1" "companies st1 = companies st"
    by (elim exE conjE)
  let ?missing = "\<not> truthy (req_companyName b) \<or> \<not> truthy (req_streetAddress b)
          \<or> \<not> truthy (req_city b) \<or> \<not> truthy (req_province b)
          \<or> \<not> truthy (req_country b)
          \<or> \<not> (req_hasCodeOfConductAgreement b \<or> req_codeOfConductAgreed b)
          \<or> \<not> (req_hasTermsOfServiceAgreement b \<or> req_acceptTerms b
                 \<or> req_agreeToPortalServices b)
          \<or> \<not> (req_hasPrivacyPolicyAgreement b \<or> req_acceptBusinessInfo b
                 \<or> req_agreeToBusinessInfo b)
          \<or> \<not> (req_hasDataSharingAgreement b \<or> req_acceptContact b
                 \<or> req_agreeToContact b)"
  let ?join = "userRole b = Some ''contractor_individual''
          \<and> req_contractorCompanyExists b = Some ''yes''
          \<and> truthyId (req_selectedCompanyId b)"
  have "fst (registerBranches ev st1 sess b (Some u1)) = st1
      \<and> status (snd (snd (registerBranches ev st1 sess b (Some u1)))) = 400"
    using rejected
  proof (rule disjE)
    assume A: "req_userType b = Some ''team_member'' \<and> req_companyName b = Some n \<and> n \<noteq> []
          \<and> getCompanyByName st n = None"
    note tm = A [THEN conjunct1]
    note cn = A [THEN conjunct2, THEN conjunct1]
    note ne = A [THEN conjunct2, THEN conjunct2, THEN conjunct1]
    note none = A [THEN conjunct2, THEN conjunct2, THEN conjunct2]
    from none have co: "getCompanyByName st1 n = None"
      by (simp add: getCompanyByName_companies [OF st1(2)])
    from tm show ?thesis
      by (simp add: registerBranches_def isTeamMember_def
          registerTeamMember_not_found [OF cn ne co] json_def)
  next
    assume B: "req_userType b \<noteq> Some ''team_member''
          \<and> (userRole b = Some ''contractor_individual''
               \<or> userRole b = Some ''contractor_account_owner'')
          \<and> \<not> ?join \<and> ?missing"
    note ntm = B [THEN conjunct1]
    note contractor = B [THEN conjunct2, THEN conjunct1]
    note notJoin = B [THEN conjunct2, THEN conjunct2, THEN conjunct1]
    note missing = B [THEN conjunct2, THEN conjunct2, THEN conjunct2]
    have "registerBranches ev st1 sess b (Some u1) = registerContractor ev st1 sess b (Some u1)"
      using ntm contractor by (auto simp: registerBranches_def isTeamMember_def)
    with registerContractor_rejects [OF notJoin missing, of ev st1 sess "Some u1"]
    show ?thesis by simp
  qed
  then have out: "fst (register ev st sess b) = st1"
    "status (snd (snd (register ev st sess b))) = 400"
    by (simp_all add: reg)
  from out(1) st1(1) fresh have "fst (register ev st sess b) \<noteq> st" by auto
  with out st1(1) u1 show ?thesis by simp
qed

theorem register_rejection_keeps_user_witness:
  "getUserByEmail sampleStore ''bob@x.io'' = None
   \<and> status (snd (snd (register sampleEnv sampleStore (sampleSession None)
        (teamMemberBody ''bob@x.io'' ''Abcdef1!'' ''Acme Power'')))) = 400
   \<and> (\<exists>u. getUserByEmail
             (fst (register sampleEnv sampleStore (sampleSession None)
                (teamMemberBody ''bob@x.io'' ''Abcdef1!'' ''Acme Power''))) ''bob@x.io'' = Some u
          \<and> uid u = ''u9'')
   \<and> status (snd (snd (register sampleEnv sampleStore (sampleSession None)
        ((contractorBody ''bob@x.io'' ''Abcdef1!'' ''Zenith Solar'')
           \<lparr>req_hasDataSharingAgreement := False\<rparr>)))) = 400
   \<and> (\<exists>u. getUserByEmail
             (fst (register sampleEnv sampleStore (sampleSession None)
                ((contractorBody ''bob@x.io'' ''Abcdef1!'' ''Zenith Solar'')
                   \<lparr>req_hasDataSharingAgreement := False\<rparr>))) ''bob@x.io'' = Some u
          \<and> uid u = ''u9'')"
proof -
  let ?b1 = "teamMemberBody ''bob@x.io'' ''Abcdef1!'' ''Acme Power''"
  let ?b2 = "(contractorBody ''bob@x.io'' ''Abcdef1!'' ''Zenith Solar'')
               \<lparr>req_hasDataSharingAgreement := False\<rparr>"
  have e: "req_email ?b1 = ''bob@x.io''" "req_email ?b2 = ''bob@x.io''"
    by (simp_all add: teamMemberBody_def contractorBody_def sampleBody_def)
  have pw: "passwordRegex (req_password ?b1)" "passwordRegex (req_password ?b2)"
    by code_simp+
  have fresh0: "getUserByEmail sampleStore ''bob@x.io'' = None" by code_simp
  have fresh: "getUserByEmail sampleStore (req_email ?b1) = None"
    "getUserByEmail sampleStore (req_email ?b2) = None"
    using fresh0 by (simp_all add: e)
  have rej1:
    "(req_userType ?b1 = Some ''team_member'' \<and> req_companyName ?b1 = Some ''Acme Power''
          \<and> ''Acme Power'' \<noteq> [] \<and> getCompanyByName sampleStore ''Acme Power'' = None)
       \<or> (req_userType ?b1 \<noteq> Some ''team_member''
          \<and> (userRole ?b1 = Some ''contractor_individual''
               \<or> userRole ?b1 = Some ''contractor_account_owner'')
          \<and> \<not> (userRole ?b1 = Some ''contractor_individual''
                 \<and> req_contractorCompanyExists ?b1 = Some ''yes''
                 \<and> truthyId (req_selectedCompanyId ?b1))
          \<and> (\<not> truthy (req_companyName ?b1) \<or> \<not> truthy (req_streetAddress ?b1)
               \<or> \<not> truthy (req_city ?b1) \<or> \<not> truthy (req_province ?b1)
               \<or> \<not> truthy (req_country ?b1)
               \<or> \<not> (req_hasCodeOfConductAgreement ?b1 \<or> req_codeOfConductAgreed ?b1)
               \<or> \<not> (req_hasTermsOfServiceAgreement ?b1 \<or> req_acceptTerms ?b1
                      \<or> req_agreeToPortalServices ?b1)
               \<or> \<not> (req_hasPrivacyPolicyAgreement ?b1 \<or> req_acceptBusinessInfo ?b1
                      \<or> req_agreeToBusinessInfo ?b1)
               \<or> \<not> (req_hasDataSharingAgreement ?b1 \<or> req_acceptContact ?b1
                      \<or> req_agreeToContact ?b1)))"
    by (simp add: teamMemberBody_def getCompanyByName_def sampleStore_def sampleCompany_def)
  have rej2:
    "(req_userType ?b2 = Some ''team_member'' \<and> req_companyName ?b2 = Some ''Zenith Solar''
          \<and> ''Zenith Solar'' \<noteq> [] \<and> getCompanyByName sampleStore ''Zenith Solar'' = None)
       \<or> (req_userType ?b2 \<noteq> Some ''team_member''
          \<and> (userRole ?b2 = Some ''contractor_individual''
               \<or> userRole ?b2 = Some ''contractor_account_owner'')
          \<and> \<not> (userRole ?b2 = Some ''contractor_individual''
                 \<and> req_contractorCompanyExists ?b2 = Some ''yes''
                 \<and> truthyId (req_selectedCompanyId ?b2))
          \<and> (\<not> truthy (req_companyName ?b2) \<or> \<not> truthy (req_streetAddress ?b2)
               \<or> \<not> truthy (req_city ?b2) \<or> \<not> truthy (req_province ?b2)
               \<or> \<not> truthy (req_country ?b2)
               \<or> \<not> (req_hasCodeOfConductAgreement ?b2 \<or> req_codeOfConductAgreed ?b2)
               \<or> \<not> (req_hasTermsOfServiceAgreement ?b2 \<or> req_acceptTerms ?b2
                      \<or> req_agreeToPortalServices ?b2)
               \<or> \<not> (req_hasPrivacyPolicyAgreement ?b2 \<or> req_acceptBusinessInfo ?b2
                      \<or> req_agreeToBusinessInfo ?b2)
               \<or> \<not> (req_hasDataSharingAgreement ?b2 \<or> req_acceptContact ?b2
                      \<or> req_agreeToContact ?b2)))"
    by (simp add: contractorBody_def sampleBody_def userRole_def orElse_def truthy_def)
  note t1 = register_rejection_keeps_user [OF pw(1) fresh(1) rej1,
      where ev = sampleEnv and sess = "sampleSession None"]
  note t2 = register_rejection_keeps_user [OF pw(2) fresh(2) rej2,
      where ev = sampleEnv and sess = "sampleSession None"]
  from t1 have r1:
    "status (snd (snd (register sampleEnv sampleStore (sampleSession None) ?b1))) = 400
     \<and> (\<exists>u. getUserByEmail (fst (register sampleEnv sampleStore (sampleSession None) ?b1))
               ''bob@x.io'' = Some u \<and> uid u = ''u9'')"
    by (simp add: e sampleEnv_def)
  from t2 have r2:
    "status (snd (snd (register sampleEnv sampleStore (sampleSession None) ?b2))) = 400
     \<and> (\<exists>u. getUserByEmail (fst (register sampleEnv sampleStore (sampleSession None) ?b2))
               ''bob@x.io'' = Some u \<and> uid u = ''u9'')"
    by (simp add: e sampleEnv_def)
  from fresh0 r1 r2 show ?thesis by blast
qed

lemma registerContractor_exhausted:
  assumes notJoin: "\<not> (userRole b = Some ''contractor_individual''
        \<and> req_contractorCompanyExists b = Some ''yes'' \<and> truthyId (req_selectedCompanyId b))"
    and cn: "req_companyName b = Some cn" "cn \<noteq> []"
    and fields: "truthy (req_streetAddress b)" "truthy (req_city b)" "truthy (req_province b)"
      "truthy (req_country b)"
    and agreements: "req_hasCodeOfConductAgreement b \<or> req_codeOfConductAgreed b"
      "req_hasTermsOfServiceAgreement b \<or> req_acceptTerms b \<or> req_agreeToPortalServices b"
      "req_hasPrivacyPolicyAgreement b \<or> req_acceptBusinessInfo b \<or> req_agreeToBusinessInfo b"
      "req_hasDataSharingAgreement b \<or> req_acceptContact b \<or> req_agreeToContact b"
    and ff: "firstFree st (baseShortName cn) = None"
  shows "registerContractor ev st sess b usr
      = (st, sess, json 400
           ''Unable to generate unique company identifier. Please contact support.'')"
proof -
  have cnT: "truthy (req_companyName b)" "orDefault (req_companyName b) [] = cn"
    using cn by (simp_all add: truthy_def orDefault_def)
  have loop: "shortNameLoop st (baseShortName cn) (baseShortName cn) 1
      = (candidate (baseShortName cn) 101, 101)"
    by (simp only: shortNameLoop_firstFree ff option.case)
  show ?thesis
    unfolding registerContractor_def Let_def
    apply (subst if_not_P [OF notJoin])
    using cnT fields agreements loop by (simp del: shortNameLoop.simps)
qed

lemma registerContractor_creates:
  assumes u: "getUserById st (uid u) = Some u"
    and notJoin: "\<not> (userRole b = Some ''contractor_individual''
        \<and> req_contractorCompanyExists b = Some ''yes'' \<and> truthyId (req_selectedCompanyId b))"
    and cn: "req_companyName b = Some cn" "cn \<noteq> []"
    and fields: "truthy (req_streetAddress b)" "truthy (req_city b)" "truthy (req_province b)"
      "truthy (req_country b)"
    and agreements: "req_hasCodeOfConductAgreement b \<or> req_codeOfConductAgreed b"
      "req_hasTermsOfServiceAgreement b \<or> req_acceptTerms b \<or> req_agreeToPortalServices b"
      "req_hasPrivacyPolicyAgreement b \<or> req_acceptBusinessInfo b \<or> req_agreeToBusinessInfo b"
      "req_hasDataSharingAgreement b \<or> req_acceptContact b \<or> req_agreeToContact b"
    and ff: "firstFree st (baseShortName cn) = Some k"
  shows "status (snd (snd (registerContractor ev st sess b (Some u)))) = 201"
    and "userId (fst (snd (registerContractor ev st sess b (Some u)))) = Some (uid u)"
    and "\<exists>co. getCompanyByShortName (fst (registerContractor ev st sess b (Some u)))
                 (candidate (baseShortName cn) k) = Some co
             \<and> name co = cn \<and> shortName co = candidate (baseShortName cn) k
             \<and> isContractor co"
proof -
  let ?base = "baseShortName cn"
  have cnT: "truthy (req_companyName b)" "orDefault (req_companyName b) [] = cn"
    using cn by (simp_all add: truthy_def orDefault_def)
  from firstFree_range [OF ff]
  have k: "k \<le> 100" and free: "getCompanyByShortName st (candidate ?base k) = None"
    by simp_all
  have loop: "shortNameLoop st ?base ?base 1 = (candidate ?base k, k)"
    by (simp only: shortNameLoop_firstFree ff option.case)
  let ?c = "\<lparr> coId = newCompanyId st, name = cn, shortName = candidate ?base k,
              businessNumber = orNull (req_businessNumber b),
              website = orNull (orElse (req_website b) (req_companyWebsite b)),
              streetAddress = req_streetAddress b, city = req_city b,
              province = req_province b, country = req_country b,
              postalCode = req_postalCode b,
              phone = orNull (req_phone b), isContractor = True,
              serviceRegions = orEmpty (req_serviceRegions b),
              supportedActivities = orEmpty (req_supportedActivities b),
              capitalRetrofitTechnologies = orEmpty (req_capitalRetrofitTechnologies b),
              howHeardAbout = None, howHeardAboutOther = None \<rparr>"
  let ?st1 = "st\<lparr>companies := companies st @ [?c]\<rparr>"
  let ?f = "\<lambda>x. x\<lparr>companyId := Some (newCompanyId st), role := ''contractor_account_owner''\<rparr>"
  have u1: "getUserById ?st1 (uid u) = Some u"
    using u by (simp add: getUserById_def)
  have upd: "snd (updateUser ?st1 (uid u) ?f) = Some (?f u)"
    by (rule updateUser_found [OF u1]) simp
  have comp: "companies (fst (updateUser ?st1 (uid u) ?f)) = companies st @ [?c]"
    by (simp add: updateUser_def)
  have eq: "registerContractor ev st sess b (Some u)
      = (fst (updateUser ?st1 (uid u) ?f), sess\<lparr>userId := Some (uid u)\<rparr>,
         (json 201 ''Registration successful! Welcome to your contractor dashboard.'')
           \<lparr>replyUser := Some (?f u), requiresEmailVerification := Some False,
            redirectTo := Some ''/contractor-dashboard''\<rparr>)"
    unfolding registerContractor_def Let_def
    apply (subst if_not_P [OF notJoin])
    using cnT fields agreements loop k upd
    by (simp add: createCompany_def Let_def split_beta del: shortNameLoop.simps)
  show "status (snd (snd (registerContractor ev st sess b (Some u)))) = 201"
    by (simp add: eq json_def)
  show "userId (fst (snd (registerContractor ev st sess b (Some u)))) = Some (uid u)"
    by (simp add: eq)
  have "getCompanyByShortName (fst (updateUser ?st1 (uid u) ?f)) (candidate ?base k) = Some ?c"
    using free by (simp add: getCompanyByShortName_def comp find_snoc)
  then show "\<exists>co. getCompanyByShortName (fst (registerContractor ev st sess b (Some u)))
                 (candidate (baseShortName cn) k) = Some co
             \<and> name co = cn \<and> shortName co = candidate (baseShortName cn) k
             \<and> isContractor co"
    by (simp add: eq)
qed

lemma baseShortName_take: "baseShortName (take 6 cn) = baseShortName cn"
  by (simp add: baseShortName_def)

lemma baseShortName_chars: "list_all isUpperAlnum (baseShortName cn)"
  by (simp add: baseShortName_def list_all_iff)

lemma crowdedStore_taken:
  "1 \<le> i \<and> i \<le> 100 \<longrightarrow> getCompanyByShortName (crowdedStore base) (candidate base i) \<noteq> None"
  by (auto simp: getCompanyByShortName_def crowdedStore_def find_None_iff sampleCompany_def)

text \<open>
  Claim C7, as the code has it. For a contractor registering a new company (password and
  email accepted, not a team member, not a join request, the address fields and the four
  agreements given): the base is what is left of the first 6 characters of the company
  name, in upper case, once every character outside A-Z and 0-9 is removed; the first
  candidate is the base, candidate j is the first 5 characters of the base followed by j
  for j from 2 to 9 and the first 4 characters followed by j from 10 on. The company is
  created under the first of the candidates 1 to 100 that no company holds, and when all
  100 are held the request is answered 400 with an explicit message. The loop is a total
  function: it always leaves.
\<close>

theorem register_contractor_short_name:
  assumes pw: "passwordRegex (req_password b)"
    and fresh: "getUserByEmail st (req_email b) = None"
    and ntm: "req_userType b \<noteq> Some ''team_member''"
    and contractor: "userRole b = Some ''contractor_individual''
        \<or> userRole b = Some ''contractor_account_owner''"
    and notJoin: "\<not> (userRole b = Some ''contractor_individual''
        \<and> req_contractorCompanyExists b = Some ''yes'' \<and> truthyId (req_selectedCompanyId b))"
    and cn: "req_companyName b = Some cn" "cn \<noteq> []"
    and fields: "truthy (req_streetAddress b)" "truthy (req_city b)" "truthy (req_province b)"
      "truthy (req_country b)"
    and agreements: "req_hasCodeOfConductAgreement b \<or> req_codeOfConductAgreed b"
      "req_hasTermsOfServiceAgreement b \<or> req_acceptTerms b \<or> req_agreeToPortalServices b"
      "req_hasPrivacyPolicyAgreement b \<or> req_acceptBusinessInfo b \<or> req_agreeToBusinessInfo b"
      "req_hasDataSharingAgreement b \<or> req_acceptContact b \<or> req_agreeToContact b"
  shows "baseShortName cn = filter isUpperAlnum (toUpperCase (take 6 cn))
    \<and> candidate (baseShortName cn) 1 = baseShortName cn
    \<and> (2 \<le> j \<and> j \<le> 9
          \<longrightarrow> candidate (baseShortName cn) j = take 5 (baseShortName cn) @ showNat j)
    \<and> (10 \<le> j \<and> j \<le> 100
          \<longrightarrow> candidate (baseShortName cn) j = take 4 (baseShortName cn) @ showNat j)
    \<and> (1 \<le> k \<and> k \<le> 100
        \<and> getCompanyByShortName st (candidate (baseShortName cn) k) = None
        \<and> (\<forall>i. 1 \<le> i \<and> i < k
              \<longrightarrow> getCompanyByShortName st (candidate (baseShortName cn) i) \<noteq> None)
          \<longrightarrow> status (snd (snd (register ev st sess b))) = 201
            \<and> (\<exists>co. getCompanyByShortName (fst (register ev st sess b))
                        (candidate (baseShortName cn) k) = Some co
                    \<and> name co = cn \<and> shortName co = candidate (baseShortName cn) k
                    \<and> isContractor co))
    \<and> ((\<forall>i. 1 \<le> i \<and> i \<le> 100
              \<longrightarrow> getCompanyByShortName st (candidate (baseShortName cn) i) \<noteq> None)
          \<longrightarrow> snd (snd (register ev st sess b))
              = json 400
                  ''Unable to generate unique company identifier. Please contact support.'')"
proof -
  let ?base = "baseShortName cn"
  from register_prelude [OF pw fresh, of ev sess]
  obtain st1 u1 where reg: "register ev st sess b = registerBranches ev st1 sess b (Some u1)"
    and u1: "uid u1 = nanoid ev"
    and st1: "getUserById st1 (nanoid ev) = Some u1" "companies st1 = companies st"
    by (elim exE conjE)
  have byId: "getUserById st1 (uid u1) = Some u1" using st1(1) u1 by simp
  have br: "registerBranches ev st1 sess b (Some u1) = registerContractor ev st1 sess b (Some u1)"
    using ntm contractor by (auto simp: registerBranches_def isTeamMember_def)
  have created: "status (snd (snd (register ev st sess b))) = 201
      \<and> (\<exists>co. getCompanyByShortName (fst (register ev st sess b)) (candidate ?base k) = Some co
             \<and> name co = cn \<and> shortName co = candidate ?base k \<and> isContractor co)"
    if k: "1 \<le> k" "k \<le> 100"
      and free: "getCompanyByShortName st (candidate ?base k) = None"
      and taken: "\<forall>i. 1 \<le> i \<and> i < k \<longrightarrow> getCompanyByShortName st (candidate ?base i) \<noteq> None"
  proof -
    have "firstFree st ?base = Some k"
      using k free taken by (intro firstFree_Some) auto
    then have ff: "firstFree st1 ?base = Some k"
      by (simp add: firstFree_companies [OF st1(2)])
    note rc = registerContractor_creates [OF byId notJoin cn fields agreements ff, of ev sess]
    from rc(1) rc(3) show ?thesis unfolding reg br by simp
  qed
  have exhausted: "snd (snd (register ev st sess b))
      = json 400 ''Unable to generate unique company identifier. Please contact support.''"
    if taken: "\<forall>i. 1 \<le> i \<and> i \<le> 100 \<longrightarrow> getCompanyByShortName st (candidate ?base i) \<noteq> None"
  proof -
    have "firstFree st ?base = None"
      using taken by (intro firstFree_None) auto
    then have ff: "firstFree st1 ?base = None"
      by (simp add: firstFree_companies [OF st1(2)])
    show ?thesis
      unfolding reg br
      by (simp add: registerContractor_exhausted [OF notJoin cn fields agreements ff])
  qed
  show ?thesis
  proof (intro conjI)
    show "baseShortName cn = filter isUpperAlnum (toUpperCase (take 6 cn))"
      by (simp add: baseShortName_def)
    show "candidate ?base 1 = ?base" by (simp add: candidate_def)
    show "2 \<le> j \<and> j \<le> 9 \<longrightarrow> candidate ?base j = take 5 ?base @ showNat j"
      by (simp add: candidate_def del: showNat.simps)
    show "10 \<le> j \<and> j \<le> 100 \<longrightarrow> candidate ?base j = take 4 ?base @ showNat j"
      by (simp add: candidate_def del: showNat.simps)
    show "1 \<le> k \<and> k \<le> 100 \<and> getCompanyByShortName st (candidate ?base k) = None
        \<and> (\<forall>i. 1 \<le> i \<and> i < k \<longrightarrow> getCompanyByShortName st (candidate ?base i) \<noteq> None)
        \<longrightarrow> status (snd (snd (register ev st sess b))) = 201
          \<and> (\<exists>co. getCompanyByShortName (fst (register ev st sess b)) (candidate ?base k)
                      = Some co
                  \<and> name co = cn \<and> shortName co = candidate ?base k \<and> isContractor co)"
      by (intro impI, elim conjE, rule created)
    show "(\<forall>i. 1 \<le> i \<and> i \<le> 100
              \<longrightarrow> getCompanyByShortName st (candidate ?base i) \<noteq> None)
          \<longrightarrow> snd (snd (register ev st sess b))
              = json 400
                  ''Unable to generate unique company identifier. Please contact support.''"
      by (intro impI, rule exhausted)
  qed
qed


theorem register_contractor_short_name_witness:
  "status (snd (snd (register sampleEnv sampleStore (sampleSession None)
       (contractorBody ''bob@x.io'' ''Abcdef1!'' ''Acme Energy Ltd'')))) = 201
   \<and> (\<exists>co. getCompanyByShortName
              (fst (register sampleEnv sampleStore (sampleSession None)
                 (contractorBody ''bob@x.io'' ''Abcdef1!'' ''Acme Energy Ltd''))) ''ACMEE2''
            = Some co
          \<and> name co = ''Acme Energy Ltd'' \<and> isContractor co)
   \<and> snd (snd (register sampleEnv (crowdedStore (baseShortName ''Zenith Solar''))
       (sampleSession None) (contractorBody ''bob@x.io'' ''Abcdef1!'' ''Zenith Solar'')))
       = json 400 ''Unable to generate unique company identifier. Please contact support.''"
proof -
  let ?b1 = "contractorBody ''bob@x.io'' ''Abcdef1!'' ''Acme Energy Ltd''"
  let ?b2 = "contractorBody ''bob@x.io'' ''Abcdef1!'' ''Zenith Solar''"
  let ?crowd = "crowdedStore (baseShortName ''Zenith Solar'')"
  have pw: "passwordRegex (req_password ?b1)" "passwordRegex (req_password ?b2)"
    by code_simp+
  have fresh1: "getUserByEmail sampleStore (req_email ?b1) = None" by code_simp
  have fresh2: "getUserByEmail ?crowd (req_email ?b2) = None"
    by (simp add: getUserByEmail_def crowdedStore_def)
  have ntm: "req_userType ?b1 \<noteq> Some ''team_member''" "req_userType ?b2 \<noteq> Some ''team_member''"
    by (simp_all add: contractorBody_def)
  have role: "userRole ?b1 = Some ''contractor_individual''
      \<or> userRole ?b1 = Some ''contractor_account_owner''"
    "userRole ?b2 = Some ''contractor_individual''
      \<or> userRole ?b2 = Some ''contractor_account_owner''"
    by (simp_all add: contractorBody_def sampleBody_def userRole_def orElse_def truthy_def)
  have nj: "\<not> (userRole ?b1 = Some ''contractor_individual''
        \<and> req_contractorCompanyExists ?b1 = Some ''yes'' \<and> truthyId (req_selectedCompanyId ?b1))"
    "\<not> (userRole ?b2 = Some ''contractor_individual''
        \<and> req_contractorCompanyExists ?b2 = Some ''yes'' \<and> truthyId (req_selectedCompanyId ?b2))"
    by (simp_all add: contractorBody_def sampleBody_def)
  have cn: "req_companyName ?b1 = Some ''Acme Energy Ltd''" "req_companyName ?b2 = Some ''Zenith Solar''"
    by (simp_all add: contractorBody_def)
  have ne: "''Acme Energy Ltd'' \<noteq> []" "''Zenith Solar'' \<noteq> []" by simp_all
  have f1: "truthy (req_streetAddress ?b1)" "truthy (req_city ?b1)" "truthy (req_province ?b1)"
    "truthy (req_country ?b1)"
    by (simp_all add: contractorBody_def truthy_def)
  have f2: "truthy (req_streetAddress ?b2)" "truthy (req_city ?b2)" "truthy (req_province ?b2)"
    "truthy (req_country ?b2)"
    by (simp_all add: contractorBody_def truthy_def)
  have a1: "req_hasCodeOfConductAgreement ?b1 \<or> req_codeOfConductAgreed ?b1"
    "req_hasTermsOfServiceAgreement ?b1 \<or> req_acceptTerms ?b1 \<or> req_agreeToPortalServices ?b1"
    "req_hasPrivacyPolicyAgreement ?b1 \<or> req_acceptBusinessInfo ?b1 \<or> req_agreeToBusinessInfo ?b1"
    "req_hasDataSharingAgreement ?b1 \<or> req_acceptContact ?b1 \<or> req_agreeToContact ?b1"
    by (simp_all add: contractorBody_def)
  have a2: "req_hasCodeOfConductAgreement ?b2 \<or> req_codeOfConductAgreed ?b2"
    "req_hasTermsOfServiceAgreement ?b2 \<or> req_acceptTerms ?b2 \<or> req_agreeToPortalServices ?b2"
    "req_hasPrivacyPolicyAgreement ?b2 \<or> req_acceptBusinessInfo ?b2 \<or> req_agreeToBusinessInfo ?b2"
    "req_hasDataSharingAgreement ?b2 \<or> req_acceptContact ?b2 \<or> req_agreeToContact ?b2"
    by (simp_all add: contractorBody_def)
  have cand1: "candidate (baseShortName ''Acme Energy Ltd'') 1 = ''ACMEE''" by code_simp
  have cand2: "candidate (baseShortName ''Acme Energy Ltd'') 2 = ''ACMEE2''" by code_simp
  have free: "getCompanyByShortName sampleStore ''ACMEE2'' = None"
    by (simp add: getCompanyByShortName_def sampleStore_def sampleCompany_def)
  have taken: "\<forall>i. 1 \<le> i \<and> i < 2
      \<longrightarrow> getCompanyByShortName sampleStore (candidate (baseShortName ''Acme Energy Ltd'') i) \<noteq> None"
  proof (intro allI impI)
    fix i :: nat assume "1 \<le> i \<and> i < 2"
    then have "i = 1" by simp
    then show "getCompanyByShortName sampleStore (candidate (baseShortName ''Acme Energy Ltd'') i)
        \<noteq> None"
      using cand1 by (simp add: getCompanyByShortName_def sampleStore_def sampleCompany_def)
  qed
  have crowded: "\<forall>i. 1 \<le> i \<and> i \<le> 100
      \<longrightarrow> getCompanyByShortName ?crowd (candidate (baseShortName ''Zenith Solar'') i) \<noteq> None"
    using crowdedStore_taken by blast
  note t1 = register_contractor_short_name [OF pw(1) fresh1 ntm(1) role(1) nj(1) cn(1) ne(1) f1 a1,
      where k = 2 and j = 2 and ev = sampleEnv and sess = "sampleSession None"]
  note t2 = register_contractor_short_name [OF pw(2) fresh2 ntm(2) role(2) nj(2) cn(2) ne(2) f2 a2,
      where k = 2 and j = 2 and ev = sampleEnv and sess = "sampleSession None"]
  from t1 free taken have r1:
    "status (snd (snd (register sampleEnv sampleStore (sampleSession None) ?b1))) = 201
     \<and> (\<exists>co. getCompanyByShortName (fst (register sampleEnv sampleStore (sampleSession None) ?b1))
                ''ACMEE2'' = Some co
            \<and> name co = ''Acme Energy Ltd'' \<and> isContractor co)"
    unfolding cand2 by auto
  from t2 crowded have r2: "snd (snd (register sampleEnv ?crowd (sampleSession None) ?b2))
       = json 400 ''Unable to generate unique company identifier. Please contact support.''"
    by blast
  from r1 r2 show ?thesis by blast
qed

text \<open>
  Claim C7 as stated fails on the base: for the company name "A&B Solar Inc" the first 6
  alphanumeric uppercase characters are ABSOLA, but the code takes the first 6 characters
  first and removes the others afterwards, which leaves ABSO, and the company is created
  under that short name.
\<close>

theorem register_contractor_base_counterexample:
  "baseShortName ''A&B Solar Inc'' = ''ABSO''
   \<and> firstSixUpperAlnum ''A&B Solar Inc'' = ''ABSOLA''
   \<and> status (snd (snd (register sampleEnv sampleStore (sampleSession None)
        (contractorBody ''bob@x.io'' ''Abcdef1!'' ''A&B Solar Inc'')))) = 201
   \<and> map_option name (getCompanyByShortName
        (fst (register sampleEnv sampleStore (sampleSession None)
           (contractorBody ''bob@x.io'' ''Abcdef1!'' ''A&B Solar Inc''))) ''ABSO'')
       = Some ''A&B Solar Inc''
   \<and> getCompanyByShortName
        (fst (register sampleEnv sampleStore (sampleSession None)
           (contractorBody ''bob@x.io'' ''Abcdef1!'' ''A&B Solar Inc''))) ''ABSOLA'' = None"
  by code_simp

section \<open>Properties of email verification\<close>

lemma registerFinish_store: "fst (registerFinish ev st sess b usr) = st"
  by (simp add: registerFinish_def split: option.splits)

text \<open>
  Claim C9. POST /verify-code, given an email and a code for an existing user: when the
  account is already verified the answer is 400 "Email is already verified", whatever
  the code is; when the account is not verified and the code is the stored one but the
  stored expiry has passed, the answer is 400 "Verification code has expired"; neither
  changes the store or the session. The stored expiry is 10 minutes after the
  registration: the code a default-path registration stored is refused as expired once
  the clock is more than 10 minutes past the registration's.
\<close>

theorem verifyCode_rejections:
  "(truthy emailOpt \<and> truthy codeOpt \<and> getUserByEmail st (orDefault emailOpt []) = Some u
      \<and> isEmailVerified u
     \<longrightarrow> verifyCode ev st sess emailOpt codeOpt
         = (st, sess, json 400 ''Email is already verified''))
   \<and> (truthy emailOpt \<and> truthy codeOpt \<and> getUserByEmail st (orDefault emailOpt []) = Some u
      \<and> \<not> isEmailVerified u \<and> emailVerificationToken u = codeOpt
      \<and> verificationTokenExpiry u = Some expiry \<and> now ev > expiry
     \<longrightarrow> verifyCode ev st sess emailOpt codeOpt
         = (st, sess, json 400 ''Verification code has expired. Please request a new one.''))
   \<and> (passwordRegex (req_password b) \<and> getUserByEmail st (req_email b) = None
      \<and> req_email b \<noteq> [] \<and> randomCode ev0 \<noteq> []
      \<and> emailVerified sess0 \<noteq> Some (req_email b)
      \<and> \<not> isTeamMember b \<and> \<not> isCompanyOwner b
      \<and> userRole b \<noteq> Some ''contractor_individual''
      \<and> userRole b \<noteq> Some ''contractor_account_owner''
      \<and> now ev > now ev0 + 10 * 60 * 1000
     \<longrightarrow> verifyCode ev (fst (register ev0 st sess0 b)) sess
           (Some (req_email b)) (Some (randomCode ev0))
         = (fst (register ev0 st sess0 b), sess,
            json 400 ''Verification code has expired. Please request a new one.''))"
proof (intro conjI impI)
  assume "truthy emailOpt \<and> truthy codeOpt \<and> getUserByEmail st (orDefault emailOpt []) = Some u
      \<and> isEmailVerified u"
  then show "verifyCode ev st sess emailOpt codeOpt
      = (st, sess, json 400 ''Email is already verified'')"
    by (simp add: verifyCode_def)
next
  assume "truthy emailOpt \<and> truthy codeOpt \<and> getUserByEmail st (orDefault emailOpt []) = Some u
      \<and> \<not> isEmailVerified u \<and> emailVerificationToken u = codeOpt
      \<and> verificationTokenExpiry u = Some expiry \<and> now ev > expiry"
  then show "verifyCode ev st sess emailOpt codeOpt
      = (st, sess, json 400 ''Verification code has expired. Please request a new one.'')"
    by (simp add: verifyCode_def)
next
  assume a: "passwordRegex (req_password b) \<and> getUserByEmail st (req_email b) = None
      \<and> req_email b \<noteq> [] \<and> randomCode ev0 \<noteq> []
      \<and> emailVerified sess0 \<noteq> Some (req_email b)
      \<and> \<not> isTeamMember b \<and> \<not> isCompanyOwner b
      \<and> userRole b \<noteq> Some ''contractor_individual''
      \<and> userRole b \<noteq> Some ''contractor_account_owner''
      \<and> now ev > now ev0 + 10 * 60 * 1000"
  then have pw: "passwordRegex (req_password b)"
    and fresh: "getUserByEmail st (req_email b) = None" by simp_all
  from register_prelude [OF pw fresh, of ev0 sess0]
  obtain st1 u1 where reg: "register ev0 st sess0 b = registerBranches ev0 st1 sess0 b (Some u1)"
    and u1: "emailVerificationToken u1 = Some (randomCode ev0)"
      "verificationTokenExpiry u1 = Some (now ev0 + 10 * 60 * 1000)"
      "isEmailVerified u1 \<longleftrightarrow> emailVerified sess0 = Some (req_email b)"
    and st1: "getUserByEmail st1 (req_email b) = Some u1"
    by (elim exE conjE)
  have "registerBranches ev0 st1 sess0 b (Some u1) = registerFinish ev0 st1 sess0 b (Some u1)"
    using a by (simp add: registerBranches_def)
  then have out: "fst (register ev0 st sess0 b) = st1"
    by (simp add: reg registerFinish_store)
  show "verifyCode ev (fst (register ev0 st sess0 b)) sess
           (Some (req_email b)) (Some (randomCode ev0))
         = (fst (register ev0 st sess0 b), sess,
            json 400 ''Verification code has expired. Please request a new one.'')"
    unfolding out using a u1 st1
    by (simp add: verifyCode_def truthy_def orDefault_def)
qed

theorem verifyCode_rejections_witness:
  "verifyCode sampleEnv sampleStore (sampleSession None) (Some ''ann@x.io'') (Some ''000000'')
     = (sampleStore, sampleSession None, json 400 ''Email is already verified'')
   \<and> verifyCode (sampleEnv\<lparr>now := 1600001\<rparr>) pendingStore (sampleSession None)
       (Some ''cy@x.io'') (Some ''482913'')
     = (pendingStore, sampleSession None,
        json 400 ''Verification code has expired. Please request a new one.'')
   \<and> status (snd (snd (verifyCode (sampleEnv\<lparr>now := 1600001\<rparr>)
        (fst (register sampleEnv sampleStore (sampleSession None)
                (sampleBody ''bob@x.io'' ''Abcdef1!'')))
        (sampleSession None) (Some ''bob@x.io'') (Some ''482913'')))) = 400"
proof -
  let ?ann = "sampleUser ''u1'' ''ann@x.io'' ''team_member'' (Some ''editor'')"
  let ?cy = "(sampleUser ''u2'' ''cy@x.io'' ''team_member'' (Some ''editor''))
                  \<lparr>isEmailVerified := False, emailVerificationToken := Some ''482913'',
                   verificationTokenExpiry := Some 1600000\<rparr>"
  let ?b = "sampleBody ''bob@x.io'' ''Abcdef1!''"
  let ?late = "sampleEnv\<lparr>now := 1600001\<rparr>"
  have h1: "truthy (Some ''ann@x.io'') \<and> truthy (Some ''000000'')
      \<and> getUserByEmail sampleStore (orDefault (Some ''ann@x.io'') []) = Some ?ann
      \<and> isEmailVerified ?ann"
    by (simp add: truthy_def orDefault_def getUserByEmail_def sampleStore_def sampleUser_def)
  have h2: "truthy (Some ''cy@x.io'') \<and> truthy (Some ''482913'')
      \<and> getUserByEmail pendingStore (orDefault (Some ''cy@x.io'') []) = Some ?cy
      \<and> \<not> isEmailVerified ?cy \<and> emailVerificationToken ?cy = Some ''482913''
      \<and> verificationTokenExpiry ?cy = Some 1600000 \<and> now ?late > 1600000"
    by (simp add: truthy_def orDefault_def getUserByEmail_def pendingStore_def sampleUser_def
        sampleEnv_def)
  have pw: "passwordRegex (req_password ?b)" by code_simp
  have fresh: "getUserByEmail sampleStore (req_email ?b) = None" by code_simp
  have h3: "passwordRegex (req_password ?b) \<and> getUserByEmail sampleStore (req_email ?b) = None
      \<and> req_email ?b \<noteq> [] \<and> randomCode sampleEnv \<noteq> []
      \<and> emailVerified (sampleSession None) \<noteq> Some (req_email ?b)
      \<and> \<not> isTeamMember ?b \<and> \<not> isCompanyOwner ?b
      \<and> userRole ?b \<noteq> Some ''contractor_individual''
      \<and> userRole ?b \<noteq> Some ''contractor_account_owner''
      \<and> now ?late > now sampleEnv + 10 * 60 * 1000"
    using pw fresh
    by (simp add: sampleBody_def sampleEnv_def sampleSession_def isTeamMember_def
        isCompanyOwner_def userRole_def orElse_def truthy_def)
  note t1 = verifyCode_rejections [where emailOpt = "Some ''ann@x.io''"
      and codeOpt = "Some ''000000''" and st = sampleStore and u = ?ann and ev = sampleEnv
      and sess = "sampleSession None" and b = ?b and expiry = 0 and ev0 = sampleEnv
      and ?sess0.0 = "sampleSession None"]
  note t2 = verifyCode_rejections [where emailOpt = "Some ''cy@x.io''"
      and codeOpt = "Some ''482913''" and st = pendingStore and u = ?cy and ev = ?late
      and sess = "sampleSession None" and b = ?b and expiry = 1600000 and ev0 = sampleEnv
      and ?sess0.0 = "sampleSession None"]
  note t3 = verifyCode_rejections [where emailOpt = "Some ''ann@x.io''"
      and codeOpt = "Some ''000000''" and st = sampleStore and u = ?ann and ev = ?late
      and sess = "sampleSession None" and b = ?b and expiry = 0 and ev0 = sampleEnv
      and ?sess0.0 = "sampleSession None"]
  from t1 h1 have r1: "verifyCode sampleEnv sampleStore (sampleSession None)
      (Some ''ann@x.io'') (Some ''000000'')
     = (sampleStore, sampleSession None, json 400 ''Email is already verified'')"
    by blast
  from t2 h2 have r2: "verifyCode ?late pendingStore (sampleSession None)
       (Some ''cy@x.io'') (Some ''482913'')
     = (pendingStore, sampleSession None,
        json 400 ''Verification code has expired. Please request a new one.'')"
    by blast
  from t3 h3 have "verifyCode ?late (fst (register sampleEnv sampleStore (sampleSession None) ?b))
        (sampleSession None) (Some (req_email ?b)) (Some (randomCode sampleEnv))
      = (fst (register sampleEnv sampleStore (sampleSession None) ?b), sampleSession None,
         json 400 ''Verification code has expired. Please request a new one.'')"
    by blast
  then have r3: "status (snd (snd (verifyCode ?late
        (fst (register sampleEnv sampleStore (sampleSession None) ?b))
        (sampleSession None) (Some ''bob@x.io'') (Some ''482913'')))) = 400"
    by (simp add: sampleBody_def sampleEnv_def json_def)
  from r1 r2 r3 show ?thesis by blast
qed

end
